theory Spec2Isabelle
  imports Complex_Main
begin

section \<open>Numeric columns\<close>

text \<open>
  A float64 cell is modelled as an exact real number or one of the three special values
  of IEEE arithmetic. Finite arithmetic is exact: binary rounding error, overflow and
  signed zeros are not modelled. A cell read from an input file or from the store is a
  finite number or missing (\<open>real option\<close>, \<open>None\<close> for NaN or NULL); the infinities
  arise only from a division by zero inside the program.
\<close>

datatype pyfloat = Fin real | PInf | NInf | NaN

fun of_cell :: "real option \<Rightarrow> pyfloat" where
  "of_cell None = NaN"
| "of_cell (Some x) = Fin x"

fun fmul :: "pyfloat \<Rightarrow> pyfloat \<Rightarrow> pyfloat" where
  "fmul (Fin a) (Fin b) = Fin (a * b)"
| "fmul NaN y = NaN"
| "fmul x NaN = NaN"
| "fmul PInf (Fin b) = (if b = 0 then NaN else if 0 < b then PInf else NInf)"
| "fmul NInf (Fin b) = (if b = 0 then NaN else if 0 < b then NInf else PInf)"
| "fmul (Fin a) PInf = (if a = 0 then NaN else if 0 < a then PInf else NInf)"
| "fmul (Fin a) NInf = (if a = 0 then NaN else if 0 < a then NInf else PInf)"
| "fmul PInf PInf = PInf"
| "fmul NInf NInf = PInf"
| "fmul PInf NInf = NInf"
| "fmul NInf PInf = NInf"

fun fdiv :: "pyfloat \<Rightarrow> pyfloat \<Rightarrow> pyfloat" where
  "fdiv (Fin a) (Fin b) =
     (if b \<noteq> 0 then Fin (a / b) else if a = 0 then NaN else if 0 < a then PInf else NInf)"
| "fdiv NaN y = NaN"
| "fdiv x NaN = NaN"
| "fdiv (Fin a) PInf = Fin 0"
| "fdiv (Fin a) NInf = Fin 0"
| "fdiv PInf (Fin b) = (if 0 \<le> b then PInf else NInf)"
| "fdiv NInf (Fin b) = (if 0 \<le> b then NInf else PInf)"
| "fdiv PInf PInf = NaN"
| "fdiv PInf NInf = NaN"
| "fdiv NInf PInf = NaN"
| "fdiv NInf NInf = NaN"

text \<open>Comparisons: every comparison with NaN is false.\<close>

fun fless :: "pyfloat \<Rightarrow> pyfloat \<Rightarrow> bool" where
  "fless (Fin a) (Fin b) = (a < b)"
| "fless NaN y = False"
| "fless x NaN = False"
| "fless NInf NInf = False"
| "fless NInf y = True"
| "fless x NInf = False"
| "fless PInf y = False"
| "fless x PInf = True"

fun fle :: "pyfloat \<Rightarrow> pyfloat \<Rightarrow> bool" where
  "fle (Fin a) (Fin b) = (a \<le> b)"
| "fle NaN y = False"
| "fle x NaN = False"
| "fle NInf y = True"
| "fle x PInf = True"
| "fle PInf y = False"
| "fle x NInf = False"

text \<open>\<open>Series.sum()\<close> of a float column: missing cells are skipped.\<close>

definition sum_skipna :: "real option list \<Rightarrow> real" where
  "sum_skipna xs = sum_list (List.map_filter id xs)"

text \<open>\<open>Series.fillna(0)\<close> and \<open>Series.replace([inf, -inf], 0)\<close>, cell by cell.\<close>

fun fillna0 :: "real option \<Rightarrow> real" where
  "fillna0 None = 0"
| "fillna0 (Some x) = x"

fun replace_inf :: "pyfloat \<Rightarrow> pyfloat" where
  "replace_inf PInf = Fin 0"
| "replace_inf NInf = Fin 0"
| "replace_inf x = x"

fun fillna :: "pyfloat \<Rightarrow> pyfloat" where
  "fillna NaN = Fin 0"
| "fillna x = x"

text \<open>
  \<open>Series.round(n)\<close>: the value is scaled by \<open>10 ^ n\<close>, rounded to the nearest integer
  with ties going to the even one, and scaled back.
\<close>

definition rint :: "real \<Rightarrow> int" where
  "rint x =
     (let f = \<lfloor>x\<rfloor>; d = x - of_int f
      in if d < 1 / 2 then f else if 1 / 2 < d then f + 1 else if even f then f else f + 1)"

definition round_np :: "nat \<Rightarrow> real \<Rightarrow> real" where
  "round_np n x = of_int (rint (x * 10 ^ n)) / 10 ^ n"

fun fround :: "nat \<Rightarrow> pyfloat \<Rightarrow> pyfloat" where
  "fround n (Fin x) = Fin (round_np n x)"
| "fround n x = x"

section \<open>Errors and log records\<close>

text \<open>
  The exceptions the modelled functions raise:
  \<^item> \<open>MissingRequiredColumn c\<close>: \<open>ValueError("Missing required column: c")\<close>;
  \<^item> \<open>MissingCSVColumns cs\<close>: \<open>ValueError("Missing required columns in CSV: cs")\<close>;
  \<^item> \<open>CannotConvertNaN\<close>: the \<open>ValueError\<close> of \<open>astype(int)\<close> on a missing value;
  \<^item> \<open>MaxEmptySequence\<close>: the \<open>ValueError\<close> of \<open>max\<close> on an empty list;
  \<^item> \<open>KeyError y\<close>: a dictionary read at a missing key;
  \<^item> \<open>ZeroDivisionError\<close>: Python's float division by zero;
  \<^item> \<open>MergeOnObjectAndFloat\<close>: the \<open>ValueError\<close> of \<open>merge\<close> on a text key column
    and a float key column;
  \<^item> \<open>ForeignKeyViolation\<close>, \<open>UndefinedTable t\<close> and \<open>InFailedSqlTransaction\<close>: the
    store's errors.
\<close>

datatype error =
    MissingRequiredColumn string
  | MissingCSVColumns "string list"
  | CannotConvertNaN
  | MaxEmptySequence
  | KeyError int
  | ZeroDivisionError
  | MergeOnObjectAndFloat
  | ForeignKeyViolation
  | UndefinedTable string
  | InFailedSqlTransaction

datatype warning = MissingLookupEntries "int list"

section \<open>The reference table and the area source\<close>

record lookup_row =
  solris_code :: int
  solris_class :: string
  biocapacity_category :: string
  biocapacity_conversion_factor :: real
  lulc_category :: string
  agc_tc_ha :: real
  bgc_tc_ha :: real
  soc_tc_ha :: real
  deoc_tc_ha :: real
  naturalness :: real
  description :: string

text \<open>
  The area source as read by \<open>pd.read_excel\<close>: its column names and, for each row, the
  cells \<open>gridcode\<close> and \<open>SUM_Area_Ha\<close> (either may be empty).
\<close>

record area_df =
  columns :: "string list"
  cells :: "(int option \<times> real option) list"

fun check_required :: "string list \<Rightarrow> string list \<Rightarrow> error option" where
  "check_required [] cols = None"
| "check_required (c # cs) cols =
     (if c \<notin> set cols then Some (MissingRequiredColumn c) else check_required cs cols)"

definition required_cols :: "string list" where
  "required_cols = [''gridcode'', ''SUM_Area_Ha'']"

text \<open>
  \<open>df.groupby("gridcode")["SUM_Area_Ha"].sum().reset_index()\<close>: one row per code in
  ascending order, rows with an empty code dropped, empty areas skipped by the sum.
\<close>

definition groupby_sum :: "(int option \<times> real option) list \<Rightarrow> (int \<times> real) list" where
  "groupby_sum rs =
     map (\<lambda>c. (c, sum_skipna (map snd (filter (\<lambda>r. fst r = Some c) rs))))
       (sort (remdups (List.map_filter fst rs)))"

text \<open>
  \<open>agg_df.merge(lookup_df, left_on="gridcode", right_on="solris_code", how="left")\<close>:
  every aggregated row is kept, once per reference row with its code, or once with all
  reference columns missing (\<open>entry = None\<close>) when there is none.
\<close>

record merged_row =
  gridcode :: int
  area_hectares :: real
  entry :: "lookup_row option"

definition merge_one :: "lookup_row list \<Rightarrow> int \<times> real \<Rightarrow> merged_row list" where
  "merge_one lookup ga =
     (case filter (\<lambda>e. solris_code e = fst ga) lookup of
        [] \<Rightarrow> [\<lparr>gridcode = fst ga, area_hectares = snd ga, entry = None\<rparr>]
      | ms \<Rightarrow> map (\<lambda>e. \<lparr>gridcode = fst ga, area_hectares = snd ga, entry = Some e\<rparr>) ms)"

definition merge_lookup :: "(int \<times> real) list \<Rightarrow> lookup_row list \<Rightarrow> merged_row list" where
  "merge_lookup agg lookup = concat (map (merge_one lookup) agg)"

definition col :: "(lookup_row \<Rightarrow> 'a) \<Rightarrow> 'b merged_row_scheme \<Rightarrow> 'a option" where
  "col f m = map_option f (entry m)"

text \<open>\<open>Series.unique()\<close>: the distinct values in order of first appearance.\<close>

definition unique :: "'a list \<Rightarrow> 'a list" where
  "unique xs = rev (remdups (rev xs))"

definition missing_codes :: "merged_row list \<Rightarrow> int list" where
  "missing_codes merged = unique (map gridcode (filter (\<lambda>m. col solris_class m = None) merged))"

definition missing_warning :: "merged_row list \<Rightarrow> warning list" where
  "missing_warning merged =
     (if length (missing_codes merged) > 0 then [MissingLookupEntries (missing_codes merged)]
      else [])"

section \<open>Aesthetic quality\<close>

text \<open>
  \<open>pd.cut(x, bins, labels, right=True)\<close>: the label of the first interval
  \<open>(lo, hi]\<close> of consecutive bin edges that holds the value, missing when none does.
\<close>

fun pd_cut :: "pyfloat \<Rightarrow> pyfloat list \<Rightarrow> 'a list \<Rightarrow> 'a option" where
  "pd_cut x (lo # hi # bins) (l # labels) =
     (if fless lo x \<and> fle x hi then Some l else pd_cut x (hi # bins) labels)"
| "pd_cut x bins labels = None"

definition bins :: "pyfloat list" where
  "bins = [NInf, Fin 1, Fin 5, Fin 15, Fin 30, PInf]"

definition labels :: "int list" where
  "labels = [5, 4, 3, 2, 1]"

definition naturalness_weight :: real where
  "naturalness_weight = 67 / 100"

definition rarity_weight :: real where
  "rarity_weight = 33 / 100"

record aesthetic_row =
  gridcode_a :: int
  area_hectares_a :: real
  entry_a :: lookup_row
  percentage_of_total_a :: pyfloat
  rarity_score :: int
  aesthetic_quality_score :: real

text \<open>\<open>merged.dropna(subset=['solris_class'])\<close>: only the rows that found a reference row.\<close>

definition dropna_class :: "merged_row list \<Rightarrow> (int \<times> real \<times> lookup_row) list" where
  "dropna_class merged =
     List.map_filter
       (\<lambda>m. map_option (\<lambda>e. (gridcode m, area_hectares m, e)) (entry m)) merged"

definition percentage_of_area :: "real \<Rightarrow> real \<Rightarrow> pyfloat" where
  "percentage_of_area total_study_area a = fmul (fdiv (Fin a) (Fin total_study_area)) (Fin 100)"

definition aesthetic_one :: "real \<Rightarrow> int \<times> real \<times> lookup_row \<Rightarrow> error + aesthetic_row" where
  "aesthetic_one total_study_area m =
     (case m of (g, a, e) \<Rightarrow>
        (case pd_cut (percentage_of_area total_study_area a) bins labels of
           None \<Rightarrow> Inl CannotConvertNaN
         | Some r \<Rightarrow>
             Inr \<lparr>gridcode_a = g, area_hectares_a = a, entry_a = e,
                  percentage_of_total_a = percentage_of_area total_study_area a,
                  rarity_score = r,
                  aesthetic_quality_score =
                    naturalness e * naturalness_weight + of_int r * rarity_weight\<rparr>))"

fun collect :: "(error + 'a) list \<Rightarrow> error + 'a list" where
  "collect [] = Inr []"
| "collect (Inl e # xs) = Inl e"
| "collect (Inr y # xs) = (case collect xs of Inl e \<Rightarrow> Inl e | Inr ys \<Rightarrow> Inr (y # ys))"

definition process_aesthetic_quality ::
  "area_df \<Rightarrow> lookup_row list \<Rightarrow> error + warning list \<times> aesthetic_row list" where
  "process_aesthetic_quality df lookup =
     (case check_required required_cols (columns df) of
        Some e \<Rightarrow> Inl e
      | None \<Rightarrow>
          (let merged = dropna_class (merge_lookup (groupby_sum (cells df)) lookup);
               total_study_area = sum_list (map (\<lambda>m. fst (snd m)) merged)
           in case collect (map (aesthetic_one total_study_area) merged) of
                Inl e \<Rightarrow> Inl e
              | Inr rs \<Rightarrow> Inr ([], rs)))"

section \<open>Biocapacity\<close>

record bio_row = merged_row +
  biocapacity_gha :: "real option"
  percentage_of_total_b :: pyfloat

definition gha_of :: "merged_row \<Rightarrow> real option" where
  "gha_of m = map_option (\<lambda>f. area_hectares m * f) (col biocapacity_conversion_factor m)"

definition total_biocapacity :: "merged_row list \<Rightarrow> real" where
  "total_biocapacity merged = sum_skipna (map gha_of merged)"

definition bio_one :: "real \<Rightarrow> merged_row \<Rightarrow> bio_row" where
  "bio_one tot m =
     \<lparr>gridcode = gridcode m, area_hectares = area_hectares m, entry = entry m,
      biocapacity_gha = gha_of m,
      percentage_of_total_b = fmul (fdiv (of_cell (gha_of m)) (Fin tot)) (Fin 100)\<rparr>"

text \<open>
  The result is the list of warnings logged and then the frame or the exception: the
  warning is logged before the percentages are computed. When the reference table has
  no row, \<open>read_sql\<close> yields columns of Python objects, the total is the integer 0 and
  the division of the first row raises \<open>ZeroDivisionError\<close>; with a row in the reference
  table the columns are float columns and a division by zero gives NaN or an infinity.
\<close>

definition process_biocapacity_data ::
  "area_df \<Rightarrow> lookup_row list \<Rightarrow> warning list \<times> (error + bio_row list)" where
  "process_biocapacity_data df lookup =
     (case check_required required_cols (columns df) of
        Some e \<Rightarrow> ([], Inl e)
      | None \<Rightarrow>
          (let merged = merge_lookup (groupby_sum (cells df)) lookup
           in if lookup = [] \<and> merged \<noteq> []
              then (missing_warning merged, Inl ZeroDivisionError)
              else (missing_warning merged,
                    Inr (map (bio_one (total_biocapacity merged)) merged))))"

section \<open>Carbon sequestration\<close>

record carbon_row = merged_row +
  total_carbon_tc :: real
  ssc :: real
  percentage_of_total_c :: pyfloat

definition carbon_of :: "merged_row \<Rightarrow> real" where
  "carbon_of m =
     (fillna0 (col agc_tc_ha m) + fillna0 (col bgc_tc_ha m) + fillna0 (col soc_tc_ha m)
        + fillna0 (col deoc_tc_ha m)) * area_hectares m"

definition total_carbon :: "merged_row list \<Rightarrow> real" where
  "total_carbon merged = sum_list (map carbon_of merged)"

definition carbon_one :: "real \<Rightarrow> merged_row \<Rightarrow> carbon_row" where
  "carbon_one tot m =
     \<lparr>gridcode = gridcode m, area_hectares = area_hectares m, entry = entry m,
      total_carbon_tc = carbon_of m,
      ssc = carbon_of m * 252,
      percentage_of_total_c =
        (if tot \<noteq> 0 then fmul (fdiv (Fin (carbon_of m)) (Fin tot)) (Fin 100) else Fin 0)\<rparr>"

definition process_carbon_sequestration ::
  "area_df \<Rightarrow> lookup_row list \<Rightarrow> error + warning list \<times> carbon_row list" where
  "process_carbon_sequestration df lookup =
     (case check_required required_cols (columns df) of
        Some e \<Rightarrow> Inl e
      | None \<Rightarrow>
          (let merged = merge_lookup (groupby_sum (cells df)) lookup
           in Inr (missing_warning merged, map (carbon_one (total_carbon merged)) merged)))"

text \<open>
  The carbon branch of \<open>save_results_to_database\<close>: the rows it hands to the store.
  The area is rounded in place first, so the density is taken over the rounded area.
\<close>

record carbon_db_row =
  solris_code_d :: "int option"
  solris_class_d :: "string option"
  area_hectares_d :: real
  agc_tc_ha_d :: "real option"
  bgc_tc_ha_d :: "real option"
  soc_tc_ha_d :: "real option"
  deoc_tc_ha_d :: "real option"
  total_carbon_tc_d :: real
  ssc_d :: real
  percentage_of_total_d :: pyfloat
  ssc_density :: pyfloat

definition save_carbon_row :: "carbon_row \<Rightarrow> carbon_db_row" where
  "save_carbon_row r =
     (let area = round_np 4 (area_hectares r);
          ssc_millions = round_np 4 (ssc r / 1000000)
      in \<lparr>solris_code_d = col solris_code r, solris_class_d = col solris_class r,
           area_hectares_d = area,
           agc_tc_ha_d = col agc_tc_ha r, bgc_tc_ha_d = col bgc_tc_ha r,
           soc_tc_ha_d = col soc_tc_ha r, deoc_tc_ha_d = col deoc_tc_ha r,
           total_carbon_tc_d = total_carbon_tc r,
           ssc_d = ssc_millions,
           percentage_of_total_d = percentage_of_total_c r,
           ssc_density =
             fround 6 (fillna (replace_inf (fdiv (Fin ssc_millions) (Fin area))))\<rparr>)"

definition save_carbon_results :: "carbon_row list \<Rightarrow> carbon_db_row list" where
  "save_carbon_results rs = map save_carbon_row rs"

section \<open>Water filtration\<close>

text \<open>
  The wetland-value table as read by \<open>pd.read_csv\<close>: rows of \<open>wetland_type\<close> and
  \<open>value\<close>, either of which may be empty. \<open>merged.merge(wf_df, on="solris_class",
  how="left")\<close> compares keys as pandas does: a missing key on the left matches a
  missing key on the right. A \<open>wetland_type\<close> column with rows but no name in any of them
  is read as a float column, and \<open>merge\<close> refuses to join it with a class column that
  holds a name (\<open>MergeOnObjectAndFloat\<close>).
\<close>

record water_row = merged_row +
  wf_value_per_ha :: real
  total_wf_value :: real
  percentage_of_total_w :: pyfloat

definition merge_wf_one ::
  "(string option \<times> real option) list \<Rightarrow> merged_row \<Rightarrow> (merged_row \<times> real option) list" where
  "merge_wf_one wf_df m =
     (case filter (\<lambda>w. fst w = col solris_class m) wf_df of
        [] \<Rightarrow> [(m, None)]
      | ws \<Rightarrow> map (\<lambda>w. (m, snd w)) ws)"

definition merge_wf ::
  "merged_row list \<Rightarrow> (string option \<times> real option) list \<Rightarrow> (merged_row \<times> real option) list" where
  "merge_wf merged wf_df = concat (map (merge_wf_one wf_df) merged)"

definition wf_value_of :: "merged_row \<times> real option \<Rightarrow> real" where
  "wf_value_of mv = round_np 4 (area_hectares (fst mv) * fillna0 (snd mv))"

definition total_wf :: "(merged_row \<times> real option) list \<Rightarrow> real" where
  "total_wf mvs = sum_list (map wf_value_of mvs)"

definition water_one :: "real \<Rightarrow> merged_row \<times> real option \<Rightarrow> water_row" where
  "water_one tot mv =
     \<lparr>gridcode = gridcode (fst mv), area_hectares = area_hectares (fst mv),
      entry = entry (fst mv),
      wf_value_per_ha = fillna0 (snd mv),
      total_wf_value = wf_value_of mv,
      percentage_of_total_w =
        (if tot \<noteq> 0 then fillna (fmul (fdiv (Fin (wf_value_of mv)) (Fin tot)) (Fin 100))
         else Fin 0)\<rparr>"

definition float_key_column :: "(string option \<times> real option) list \<Rightarrow> bool" where
  "float_key_column wf_df = (wf_df \<noteq> [] \<and> list_all (\<lambda>w. fst w = None) wf_df)"

definition text_key_column :: "merged_row list \<Rightarrow> bool" where
  "text_key_column merged = list_ex (\<lambda>m. col solris_class m \<noteq> None) merged"

definition process_water_filtration ::
  "area_df \<Rightarrow> lookup_row list \<Rightarrow> (string option \<times> real option) list
     \<Rightarrow> error + warning list \<times> water_row list" where
  "process_water_filtration df lookup wf_df =
     (case check_required required_cols (columns df) of
        Some e \<Rightarrow> Inl e
      | None \<Rightarrow>
          (let with_class = merge_lookup (groupby_sum (cells df)) lookup
           in if text_key_column with_class \<and> float_key_column wf_df
              then Inl MergeOnObjectAndFloat
              else
                (let merged = merge_wf with_class wf_df
                 in Inr ([], map (water_one (total_wf merged)) merged))))"

section \<open>Discounted social cost projection\<close>

text \<open>
  The price schedule is the list of \<open>(Year, SCC)\<close> rows of the annual price file;
  \<open>dict(zip(...))\<close> keeps the last value of a repeated year.
\<close>

definition scc_by_year :: "(int \<times> real) list \<Rightarrow> int \<Rightarrow> real option" where
  "scc_by_year sched = map_of (rev sched)"

definition last_year :: "(int \<times> real) list \<Rightarrow> int \<Rightarrow> error + int" where
  "last_year sched year =
     (case filter (\<lambda>y. y \<le> year) (map fst sched) of
        [] \<Rightarrow> Inl MaxEmptySequence
      | k # ks \<Rightarrow> Inr (fold max ks k))"

definition annual_scc_value :: "(int \<times> real) list \<Rightarrow> int \<Rightarrow> error + real" where
  "annual_scc_value sched year =
     (case scc_by_year sched year of
        Some v \<Rightarrow> Inr v
      | None \<Rightarrow>
          (case last_year sched year of
             Inl e \<Rightarrow> Inl e
           | Inr ly \<Rightarrow>
               (case scc_by_year sched ly of None \<Rightarrow> Inl (KeyError ly) | Some v \<Rightarrow> Inr v)))"

definition scaling_factor :: "real \<Rightarrow> real" where
  "scaling_factor total_ssc_millions = total_ssc_millions / 252"

definition discounted_value :: "real \<Rightarrow> real \<Rightarrow> int \<Rightarrow> real \<Rightarrow> int \<Rightarrow> pyfloat" where
  "discounted_value sf annual start_year discount_rate year =
     fdiv (Fin (sf * annual)) (Fin ((1 + discount_rate) ^ nat (year - start_year)))"

definition discounted_year ::
  "(int \<times> real) list \<Rightarrow> real \<Rightarrow> int \<Rightarrow> real \<Rightarrow> int \<Rightarrow> error + int \<times> pyfloat" where
  "discounted_year sched sf start_year discount_rate year =
     (case annual_scc_value sched year of
        Inl e \<Rightarrow> Inl e
      | Inr v \<Rightarrow> Inr (year, discounted_value sf v start_year discount_rate year))"

definition plot_discounted_social_cost ::
  "real \<Rightarrow> (int \<times> real) list \<Rightarrow> int \<Rightarrow> int \<Rightarrow> real \<Rightarrow> error + (int \<times> pyfloat) list" where
  "plot_discounted_social_cost total_ssc_millions sched start_year end_year discount_rate =
     collect (map (discounted_year sched (scaling_factor total_ssc_millions) start_year
                     discount_rate) [start_year..end_year])"

section \<open>Loading the reference table\<close>

record csv_row =
  solris_code_v :: "int option"
  solris_class_v :: "string option"
  biocapacity_category_v :: "string option"
  biocapacity_conversion_factor_v :: "real option"
  lulc_category_v :: "string option"
  agc_tc_ha_v :: "real option"
  bgc_tc_ha_v :: "real option"
  soc_tc_ha_v :: "real option"
  deoc_tc_ha_v :: "real option"
  naturalness_v :: "real option"
  description_v :: "string option"

record lookup_csv =
  csv_columns :: "string list"
  csv_rows :: "csv_row list"

definition required_columns :: "string list" where
  "required_columns =
     [''solris_code'', ''solris_class'', ''biocapacity_category'',
      ''biocapacity_conversion_factor'', ''lulc_category'', ''agc_tc_ha'',
      ''bgc_tc_ha'', ''soc_tc_ha'', ''deoc_tc_ha'', ''naturalness'', ''description'']"

definition missing_columns :: "string list \<Rightarrow> string list" where
  "missing_columns cols = filter (\<lambda>c. c \<notin> set cols) required_columns"

text \<open>
  \<open>custom_factors\<close> maps a code to a dictionary from field names to values; the list
  keeps the order in which \<open>items()\<close> yields the codes.
\<close>

type_synonym factors = "string \<Rightarrow> real option option"

definition apply_custom_factor :: "int \<times> factors \<Rightarrow> csv_row list \<Rightarrow> csv_row list" where
  "apply_custom_factor cf rs =
     (case snd cf ''biocapacity_conversion_factor'' of
        None \<Rightarrow> rs
      | Some v \<Rightarrow>
          map (\<lambda>r. if solris_code_v r = Some (fst cf)
                    then r\<lparr>biocapacity_conversion_factor_v := v\<rparr> else r) rs)"

definition apply_custom_factors :: "(int \<times> factors) list \<Rightarrow> csv_row list \<Rightarrow> csv_row list" where
  "apply_custom_factors cfs rs = fold apply_custom_factor cfs rs"

text \<open>An override entry with every field but the conversion factor removed.\<close>

definition only_factor :: "int \<times> factors \<Rightarrow> int \<times> factors" where
  "only_factor cf = (fst cf, snd cf |` {''biocapacity_conversion_factor''})"

text \<open>\<open>df.dropna()\<close>: a row with any empty cell is dropped.\<close>

definition complete_row :: "csv_row \<Rightarrow> lookup_row option" where
  "complete_row r =
     Option.bind (solris_code_v r) (\<lambda>c.
     Option.bind (solris_class_v r) (\<lambda>cl.
     Option.bind (biocapacity_category_v r) (\<lambda>bc.
     Option.bind (biocapacity_conversion_factor_v r) (\<lambda>f.
     Option.bind (lulc_category_v r) (\<lambda>lu.
     Option.bind (agc_tc_ha_v r) (\<lambda>agc.
     Option.bind (bgc_tc_ha_v r) (\<lambda>bgc.
     Option.bind (soc_tc_ha_v r) (\<lambda>soc.
     Option.bind (deoc_tc_ha_v r) (\<lambda>deoc.
     Option.bind (naturalness_v r) (\<lambda>n.
     Option.bind (description_v r) (\<lambda>d.
       Some \<lparr>solris_code = c, solris_class = cl, biocapacity_category = bc,
             biocapacity_conversion_factor = f, lulc_category = lu, agc_tc_ha = agc,
             bgc_tc_ha = bgc, soc_tc_ha = soc, deoc_tc_ha = deoc, naturalness = n,
             description = d\<rparr>)))))))))))"

definition dropna :: "csv_row list \<Rightarrow> lookup_row list" where
  "dropna rs = List.map_filter complete_row rs"

text \<open>
  The store: the reference table and the four result tables, each present or absent. Of
  a result table the model keeps whether it carries the foreign key on \<open>solris_code\<close>
  and the \<open>solris_code\<close> column of its rows (NULL allowed). A table that
  \<open>create_database_schema\<close> creates carries the foreign key; a table that \<open>to_sql\<close>
  creates anew, after \<open>clear_results_for_mode\<close> has dropped it, does not.
\<close>

record result_table =
  foreign_key :: bool
  codes :: "int option list"

record store =
  solris_lookup :: "lookup_row list option"
  biocapacity_results :: "result_table option"
  carbon_sequestration_results :: "result_table option"
  water_filtration_results :: "result_table option"
  aesthetic_quality_results :: "result_table option"

datatype table = Biocapacity_results | Carbon_sequestration_results
  | Water_filtration_results | Aesthetic_quality_results

fun table_name :: "table \<Rightarrow> string" where
  "table_name Biocapacity_results = ''biocapacity_results''"
| "table_name Carbon_sequestration_results = ''carbon_sequestration_results''"
| "table_name Water_filtration_results = ''water_filtration_results''"
| "table_name Aesthetic_quality_results = ''aesthetic_quality_results''"

fun get_table :: "table \<Rightarrow> store \<Rightarrow> result_table option" where
  "get_table Biocapacity_results s = biocapacity_results s"
| "get_table Carbon_sequestration_results s = carbon_sequestration_results s"
| "get_table Water_filtration_results s = water_filtration_results s"
| "get_table Aesthetic_quality_results s = aesthetic_quality_results s"

fun set_table :: "table \<Rightarrow> result_table option \<Rightarrow> store \<Rightarrow> store" where
  "set_table Biocapacity_results v s = s\<lparr>biocapacity_results := v\<rparr>"
| "set_table Carbon_sequestration_results v s = s\<lparr>carbon_sequestration_results := v\<rparr>"
| "set_table Water_filtration_results v s = s\<lparr>water_filtration_results := v\<rparr>"
| "set_table Aesthetic_quality_results v s = s\<lparr>aesthetic_quality_results := v\<rparr>"

definition tables_to_clear :: "table list" where
  "tables_to_clear =
     [Biocapacity_results, Carbon_sequestration_results, Water_filtration_results,
      Aesthetic_quality_results]"

text \<open>
  A result table blocks the clearing of the reference table when it carries the foreign
  key and one of its rows holds the code of a reference row.
\<close>

definition referencing :: "lookup_row list \<Rightarrow> result_table \<Rightarrow> bool" where
  "referencing lookup rt =
     (foreign_key rt \<and>
      list_ex (\<lambda>c. case c of None \<Rightarrow> False | Some k \<Rightarrow> k \<in> set (map solris_code lookup))
        (codes rt))"

definition still_referenced :: "store \<Rightarrow> lookup_row list \<Rightarrow> bool" where
  "still_referenced s lookup =
     list_ex (\<lambda>t. case get_table t s of None \<Rightarrow> False | Some rt \<Rightarrow> referencing lookup rt)
       tables_to_clear"

text \<open>\<open>DELETE FROM solris_lookup\<close> and \<open>TRUNCATE TABLE t\<close>, as statements on the store.\<close>

definition delete_solris_lookup :: "store \<Rightarrow> error + store" where
  "delete_solris_lookup s =
     (case solris_lookup s of
        None \<Rightarrow> Inl (UndefinedTable ''solris_lookup'')
      | Some lookup \<Rightarrow>
          if still_referenced s lookup then Inl ForeignKeyViolation
          else Inr (s\<lparr>solris_lookup := Some []\<rparr>))"

definition truncate_table :: "table \<Rightarrow> store \<Rightarrow> error + store" where
  "truncate_table t s =
     (case get_table t s of
        None \<Rightarrow> Inl (UndefinedTable (table_name t))
      | Some rt \<Rightarrow> Inr (set_table t (Some (rt\<lparr>codes := []\<rparr>)) s))"

text \<open>
  A connection (\<open>engine.connect()\<close>) runs its statements in one transaction until
  \<open>commit\<close>. A statement that fails aborts the transaction: every later statement of
  the transaction fails with \<open>InFailedSqlTransaction\<close> and changes nothing, and
  \<open>commit\<close> then ends the transaction by rolling it back. Leaving the \<open>with\<close> block
  closes the connection and drops what was not committed.
\<close>

record connection =
  committed :: store
  working :: store
  aborted :: bool

definition connect :: "store \<Rightarrow> connection" where
  "connect s = \<lparr>committed = s, working = s, aborted = False\<rparr>"

definition execute :: "(store \<Rightarrow> error + store) \<Rightarrow> connection \<Rightarrow> error option \<times> connection" where
  "execute stmt c =
     (if aborted c then (Some InFailedSqlTransaction, c)
      else case stmt (working c) of
             Inl e \<Rightarrow> (Some e, c\<lparr>aborted := True\<rparr>)
           | Inr s \<Rightarrow> (None, c\<lparr>working := s\<rparr>))"

definition commit :: "connection \<Rightarrow> connection" where
  "commit c =
     (if aborted c then c\<lparr>working := committed c, aborted := False\<rparr>
      else c\<lparr>committed := working c\<rparr>)"

definition close_connection :: "connection \<Rightarrow> store" where
  "close_connection c = committed c"

text \<open>
  The test on the error message (\<open>"violates foreign key constraint"\<close>,
  \<open>"still referenced"\<close>, \<open>"depends on"\<close>) recognises the store's foreign-key error.
\<close>

fun is_foreign_key_error :: "error \<Rightarrow> bool" where
  "is_foreign_key_error ForeignKeyViolation = True"
| "is_foreign_key_error e = False"

text \<open>The inner \<open>try\<close>: a \<open>TRUNCATE\<close> whose failure is logged and dropped.\<close>

definition truncate_ignoring :: "table \<Rightarrow> connection \<Rightarrow> connection" where
  "truncate_ignoring t c = snd (execute (truncate_table t) c)"

text \<open>
  The \<open>with self.engine.connect() as conn\<close> block of \<open>load_solris_lookup_table\<close>: the
  exception it raises, if any, and the store it leaves.
\<close>

definition clear_solris_lookup :: "store \<Rightarrow> error option \<times> store" where
  "clear_solris_lookup s =
     (case execute delete_solris_lookup (connect s) of
        (None, c1) \<Rightarrow> (None, close_connection (commit c1))
      | (Some e, c1) \<Rightarrow>
          if is_foreign_key_error e then
            (let c2 = commit (fold truncate_ignoring tables_to_clear c1)
             in case execute delete_solris_lookup c2 of
                  (None, c3) \<Rightarrow> (None, close_connection (commit c3))
                | (Some err, c3) \<Rightarrow> (Some err, close_connection c3))
          else (Some e, close_connection c1))"

text \<open>
  \<open>df.to_sql('solris_lookup', self.engine, if_exists='append', index=False)\<close> is a
  parameter of the loader: given the columns of the source and the filtered rows it
  inserts them or fails (a duplicate code, a value out of the range of its column, a
  column the table does not have). When it fails the reference table stays cleared.
\<close>

definition load_solris_lookup_table ::
  "(string list \<Rightarrow> lookup_row list \<Rightarrow> store \<Rightarrow> error + store)
     \<Rightarrow> lookup_csv \<Rightarrow> (int \<times> factors) list \<Rightarrow> store
     \<Rightarrow> (error + lookup_row list) \<times> store" where
  "load_solris_lookup_table to_sql csv custom_factors s =
     (if missing_columns (csv_columns csv) \<noteq> []
      then (Inl (MissingCSVColumns (missing_columns (csv_columns csv))), s)
      else
        (let df = dropna (apply_custom_factors custom_factors (csv_rows csv))
         in case clear_solris_lookup s of
              (Some e, s1) \<Rightarrow> (Inl e, s1)
            | (None, s1) \<Rightarrow>
                (case to_sql (csv_columns csv) df s1 of
                   Inl e \<Rightarrow> (Inl e, s1)
                 | Inr s2 \<Rightarrow> (Inr df, s2))))"

section \<open>Concrete inputs\<close>

definition e1 :: lookup_row where
  "e1 = \<lparr>solris_code = 1, solris_class = ''Forest'', biocapacity_category = ''forest'',
          biocapacity_conversion_factor = 126 / 100, lulc_category = ''F'', agc_tc_ha = 50,
          bgc_tc_ha = 10, soc_tc_ha = 100, deoc_tc_ha = 40, naturalness = 5,
          description = ''d''\<rparr>"

definition e2 :: lookup_row where
  "e2 = \<lparr>solris_code = 2, solris_class = ''Marsh'', biocapacity_category = ''wetland'',
          biocapacity_conversion_factor = 1 / 2, lulc_category = ''W'', agc_tc_ha = 5,
          bgc_tc_ha = 1, soc_tc_ha = 10, deoc_tc_ha = 4, naturalness = 4,
          description = ''d''\<rparr>"

definition df_aesthetic :: area_df where
  "df_aesthetic =
     \<lparr>columns = [''gridcode'', ''SUM_Area_Ha''],
      cells = [(Some 2, Some 99), (Some 1, Some 1), (Some 2, Some 100), (None, Some 5),
               (Some 7, Some 3)]\<rparr>"

definition row_aesthetic1 :: aesthetic_row where
  "row_aesthetic1 =
     \<lparr>gridcode_a = 1, area_hectares_a = 1, entry_a = e1, percentage_of_total_a = Fin (1 / 2),
      rarity_score = 5, aesthetic_quality_score = 5\<rparr>"

definition row_aesthetic2 :: aesthetic_row where
  "row_aesthetic2 =
     \<lparr>gridcode_a = 2, area_hectares_a = 199, entry_a = e2,
      percentage_of_total_a = Fin (199 / 2), rarity_score = 1,
      aesthetic_quality_score = 301 / 100\<rparr>"

definition df_carbon :: area_df where
  "df_carbon =
     \<lparr>columns = [''gridcode'', ''SUM_Area_Ha''],
      cells = [(Some 1, Some (50004 / 100000)), (Some 9, Some 0)]\<rparr>"

definition row_carbon :: carbon_row where
  "row_carbon =
     \<lparr>gridcode = 1, area_hectares = 50004 / 100000, entry = Some e1,
      total_carbon_tc = 12501 / 125, ssc = 3150252 / 125,
      percentage_of_total_c = Fin 100\<rparr>"

definition row_carbon_missing :: carbon_row where
  "row_carbon_missing =
     \<lparr>gridcode = 9, area_hectares = 0, entry = None, total_carbon_tc = 0, ssc = 0,
      percentage_of_total_c = Fin 0\<rparr>"

definition df_water :: area_df where
  "df_water =
     \<lparr>columns = [''gridcode'', ''SUM_Area_Ha''],
      cells = [(Some 2, Some 3), (Some 1, Some 4), (Some 9, Some 2)]\<rparr>"

definition wf_marsh :: "(string option \<times> real option) list" where
  "wf_marsh = [(Some ''Marsh'', Some (123456789 / 100000))]"

definition wf_blank :: "(string option \<times> real option) list" where
  "wf_blank = [(Some ''Marsh'', Some 3), (None, Some 5)]"

definition wf_bog :: "(string option \<times> real option) list" where
  "wf_bog = [(Some ''Bog'', Some 7)]"

definition wf_no_name :: "(string option \<times> real option) list" where
  "wf_no_name = [(None, Some 5)]"

definition row_water1 :: water_row where
  "row_water1 =
     \<lparr>gridcode = 1, area_hectares = 4, entry = Some e1, wf_value_per_ha = 0,
      total_wf_value = 0, percentage_of_total_w = Fin 0\<rparr>"

definition row_water2 :: water_row where
  "row_water2 =
     \<lparr>gridcode = 2, area_hectares = 3, entry = Some e2,
      wf_value_per_ha = 123456789 / 100000, total_wf_value = 37037037 / 10000,
      percentage_of_total_w = Fin 100\<rparr>"

definition row_water2_zero :: water_row where
  "row_water2_zero =
     \<lparr>gridcode = 2, area_hectares = 3, entry = Some e2, wf_value_per_ha = 0,
      total_wf_value = 0, percentage_of_total_w = Fin 0\<rparr>"

definition row_water9 :: water_row where
  "row_water9 =
     \<lparr>gridcode = 9, area_hectares = 2, entry = None, wf_value_per_ha = 0,
      total_wf_value = 0, percentage_of_total_w = Fin 0\<rparr>"

definition row_water2_blank :: water_row where
  "row_water2_blank =
     \<lparr>gridcode = 2, area_hectares = 3, entry = Some e2, wf_value_per_ha = 3,
      total_wf_value = 9, percentage_of_total_w = Fin (900 / 19)\<rparr>"

definition row_water9_blank :: water_row where
  "row_water9_blank =
     \<lparr>gridcode = 9, area_hectares = 2, entry = None, wf_value_per_ha = 5,
      total_wf_value = 10, percentage_of_total_w = Fin (1000 / 19)\<rparr>"

definition schedule :: "(int \<times> real) list" where
  "schedule = [(2020, 250), (2021, 252), (2025, 270)]"

definition csv_row1 :: csv_row where
  "csv_row1 =
     \<lparr>solris_code_v = Some 1, solris_class_v = Some ''Forest'',
      biocapacity_category_v = Some ''forest'', biocapacity_conversion_factor_v = Some (126 / 100),
      lulc_category_v = Some ''F'', agc_tc_ha_v = Some 50, bgc_tc_ha_v = Some 10,
      soc_tc_ha_v = Some 100, deoc_tc_ha_v = Some 40, naturalness_v = Some 5,
      description_v = Some ''d''\<rparr>"

definition csv_row2 :: csv_row where
  "csv_row2 =
     \<lparr>solris_code_v = Some 2, solris_class_v = Some ''Marsh'',
      biocapacity_category_v = Some ''wetland'', biocapacity_conversion_factor_v = Some (1 / 2),
      lulc_category_v = Some ''W'', agc_tc_ha_v = Some 5, bgc_tc_ha_v = Some 1,
      soc_tc_ha_v = Some 10, deoc_tc_ha_v = Some 4, naturalness_v = Some 4,
      description_v = None\<rparr>"

definition csv_lookup :: lookup_csv where
  "csv_lookup = \<lparr>csv_columns = required_columns, csv_rows = [csv_row1, csv_row2]\<rparr>"

definition factors1 :: "(int \<times> factors) list" where
  "factors1 =
     [(1, [''biocapacity_conversion_factor'' \<mapsto> Some (6 / 10), ''naturalness'' \<mapsto> Some 9]),
      (2, [''naturalness'' \<mapsto> Some 7]),
      (33, [''biocapacity_conversion_factor'' \<mapsto> Some (3 / 4)])]"

definition store1 :: store where
  "store1 =
     \<lparr>solris_lookup = Some [e1, e2],
      biocapacity_results = Some \<lparr>foreign_key = True, codes = [Some 1, None]\<rparr>,
      carbon_sequestration_results = None,
      water_filtration_results = Some \<lparr>foreign_key = True, codes = []\<rparr>,
      aesthetic_quality_results = Some \<lparr>foreign_key = True, codes = [Some 2, Some 1]\<rparr>\<rparr>"

section \<open>Properties of the numeric operations\<close>

lemma round_np_zero [simp]: "round_np n 0 = 0"
  by (simp add: round_np_def rint_def)

lemma rint_near: "\<bar>of_int (rint x) - x\<bar> \<le> 1 / 2"
proof -
  have "of_int \<lfloor>x\<rfloor> \<le> x" "x < of_int \<lfloor>x\<rfloor> + 1"
    by linarith+
  then show ?thesis
    by (auto simp: rint_def Let_def)
qed

lemma round_np_near: "\<bar>round_np n x - x\<bar> \<le> 1 / (2 * 10 ^ n)"
proof -
  have p: "(0::real) < 10 ^ n" by simp
  have h: "\<bar>of_int (rint (x * 10 ^ n)) - x * 10 ^ n\<bar> \<le> 1 / 2"
    by (rule rint_near)
  have "round_np n x - x = (of_int (rint (x * 10 ^ n)) - x * 10 ^ n) / 10 ^ n"
    using p by (simp add: round_np_def diff_divide_distrib)
  then have "\<bar>round_np n x - x\<bar> = \<bar>of_int (rint (x * 10 ^ n)) - x * 10 ^ n\<bar> / 10 ^ n"
    using p by (simp only: abs_divide)
  also have "\<dots> \<le> (1 / 2) / 10 ^ n"
    by (rule divide_right_mono) (use h p in simp_all)
  finally show ?thesis by simp
qed

lemma density_cases:
  "fround 6 (fillna (replace_inf (fdiv (Fin s) (Fin a)))) =
     (if a = 0 then Fin 0 else Fin (round_np 6 (s / a)))"
  by simp

section \<open>Properties of the shared frame operations\<close>

lemma collect_Inr: "collect xs = Inr ys \<Longrightarrow> xs = map Inr ys"
proof (induction xs arbitrary: ys)
  case Nil
  then show ?case by simp
next
  case (Cons x xs)
  then show ?case by (cases x) (auto split: sum.splits)
qed

lemma collect_map_Inr: "collect (map Inr ys) = Inr ys"
  by (induction ys) auto

lemma sum_skipna_Cons: "sum_skipna (g # gs) = fillna0 g + sum_skipna gs"
  by (cases g) (simp_all add: sum_skipna_def List.map_filter_simps)

lemma sum_skipna_Nil: "sum_skipna [] = 0"
  by (simp add: sum_skipna_def List.map_filter_simps)

lemma check_required_None:
  "check_required cs cols = None \<longleftrightarrow> set cs \<subseteq> set cols"
  by (induction cs) auto

lemma groupby_sum_codes: "fst ` set (groupby_sum cs) = {g. Some g \<in> fst ` set cs}"
proof -
  have "fst ` set (groupby_sum cs) = set (List.map_filter fst cs)"
    by (simp add: groupby_sum_def image_image)
  also have "\<dots> = {g. Some g \<in> fst ` set cs}"
    by (force simp: List.map_filter_def image_iff)
  finally show ?thesis .
qed

lemma merge_one_nonempty: "merge_one lookup ga \<noteq> []"
  by (simp add: merge_one_def split: list.splits)

lemma merge_one_fields:
  assumes "m \<in> set (merge_one lookup ga)"
  shows "gridcode m = fst ga" and "area_hectares m = snd ga"
    and "case entry m of
           None \<Rightarrow> fst ga \<notin> solris_code ` set lookup
         | Some e \<Rightarrow> e \<in> set lookup \<and> solris_code e = fst ga"
proof -
  let ?ms = "filter (\<lambda>e. solris_code e = fst ga) lookup"
  show "gridcode m = fst ga" "area_hectares m = snd ga"
    using assms by (auto simp: merge_one_def split: list.splits)
  show "case entry m of
           None \<Rightarrow> fst ga \<notin> solris_code ` set lookup
         | Some e \<Rightarrow> e \<in> set lookup \<and> solris_code e = fst ga"
  proof (cases ?ms)
    case Nil
    then have "fst ga \<notin> solris_code ` set lookup"
      by (auto simp: filter_empty_conv)
    with Nil assms show ?thesis by (simp add: merge_one_def)
  next
    case (Cons e es)
    then have "merge_one lookup ga =
        map (\<lambda>e. \<lparr>gridcode = fst ga, area_hectares = snd ga, entry = Some e\<rparr>) ?ms"
      by (simp add: merge_one_def)
    with assms obtain e' where "e' \<in> set ?ms" "entry m = Some e'"
      by (metis (no_types, lifting) imageE list.set_map merged_row.select_convs(3))
    then show ?thesis by simp
  qed
qed

lemma merge_lookup_set:
  "m \<in> set (merge_lookup agg lookup) \<longleftrightarrow> (\<exists>ga\<in>set agg. m \<in> set (merge_one lookup ga))"
  by (auto simp: merge_lookup_def)

lemma merge_lookup_keeps:
  assumes "ga \<in> set agg"
  shows "\<exists>m\<in>set (merge_lookup agg lookup). gridcode m = fst ga"
proof -
  obtain m where m: "m \<in> set (merge_one lookup ga)"
    using merge_one_nonempty [of lookup ga] by (cases "merge_one lookup ga") auto
  then have "m \<in> set (merge_lookup agg lookup)" using assms by (auto simp: merge_lookup_set)
  with merge_one_fields(1) [OF m] show ?thesis by blast
qed

lemma merged_entry:
  assumes "m \<in> set (merge_lookup agg lookup)"
  shows "entry m = None \<longleftrightarrow> gridcode m \<notin> solris_code ` set lookup"
proof -
  from assms obtain ga where ga: "ga \<in> set agg" "m \<in> set (merge_one lookup ga)"
    by (auto simp: merge_lookup_set)
  from merge_one_fields [OF ga(2)] show ?thesis
    by (cases "entry m") (auto simp: image_iff intro: sym)
qed

lemma merged_codes:
  "gridcode ` set (merge_lookup (groupby_sum cs) lookup) = {g. Some g \<in> fst ` set cs}"
proof -
  have "gridcode ` set (merge_lookup (groupby_sum cs) lookup) = fst ` set (groupby_sum cs)"
  proof (intro equalityI subsetI)
    fix g assume "g \<in> gridcode ` set (merge_lookup (groupby_sum cs) lookup)"
    then obtain m ga where "ga \<in> set (groupby_sum cs)" "m \<in> set (merge_one lookup ga)"
      "g = gridcode m"
      by (auto simp: merge_lookup_set)
    then show "g \<in> fst ` set (groupby_sum cs)"
      using merge_one_fields(1) [of m lookup ga] by simp
  next
    fix g assume "g \<in> fst ` set (groupby_sum cs)"
    then obtain ga where "ga \<in> set (groupby_sum cs)" "g = fst ga" by auto
    then show "g \<in> gridcode ` set (merge_lookup (groupby_sum cs) lookup)"
      using merge_lookup_keeps [of ga "groupby_sum cs" lookup] by force
  qed
  then show ?thesis by (simp add: groupby_sum_codes)
qed

lemma set_unique: "set (unique xs) = set xs"
  by (simp add: unique_def)

lemma missing_codes_set:
  "set (missing_codes (merge_lookup (groupby_sum cs) lookup)) =
     {g. Some g \<in> fst ` set cs \<and> g \<notin> solris_code ` set lookup}"
proof -
  let ?ms = "merge_lookup (groupby_sum cs) lookup"
  have "set (missing_codes ?ms) = gridcode ` {m \<in> set ?ms. entry m = None}"
    by (auto simp: missing_codes_def set_unique col_def)
  also have "\<dots> = {g \<in> gridcode ` set ?ms. g \<notin> solris_code ` set lookup}"
  proof (intro equalityI subsetI)
    fix g assume "g \<in> gridcode ` {m \<in> set ?ms. entry m = None}"
    then obtain m where "m \<in> set ?ms" "entry m = None" "g = gridcode m" by auto
    then show "g \<in> {g \<in> gridcode ` set ?ms. g \<notin> solris_code ` set lookup}"
      using merged_entry [of m "groupby_sum cs" lookup] by simp
  next
    fix g assume "g \<in> {g \<in> gridcode ` set ?ms. g \<notin> solris_code ` set lookup}"
    then obtain m where "m \<in> set ?ms" "g = gridcode m" "g \<notin> solris_code ` set lookup"
      by auto
    then show "g \<in> gridcode ` {m \<in> set ?ms. entry m = None}"
      using merged_entry [of m "groupby_sum cs" lookup] by simp
  qed
  finally show ?thesis by (simp add: merged_codes)
qed

lemma missing_warning_present:
  assumes "Some c \<in> fst ` set cs" and "c \<notin> solris_code ` set lookup"
  shows "missing_warning (merge_lookup (groupby_sum cs) lookup) =
           [MissingLookupEntries (missing_codes (merge_lookup (groupby_sum cs) lookup))]"
proof -
  have "c \<in> set (missing_codes (merge_lookup (groupby_sum cs) lookup))"
    using assms by (simp add: missing_codes_set)
  then have "missing_codes (merge_lookup (groupby_sum cs) lookup) \<noteq> []" by auto
  then show ?thesis by (simp add: missing_warning_def)
qed

section \<open>Aesthetic quality: rarity bins and score\<close>

lemma cut_bins:
  "pd_cut p bins labels =
     (case p of
        Fin x \<Rightarrow> Some (if x \<le> 1 then 5 else if x \<le> 5 then 4 else if x \<le> 15 then 3
                         else if x \<le> 30 then 2 else 1)
      | PInf \<Rightarrow> Some 1
      | NInf \<Rightarrow> None
      | NaN \<Rightarrow> None)"
  by (cases p) (auto simp: bins_def labels_def)

lemma aesthetic_one_Inr:
  assumes "aesthetic_one t m = Inr r"
  shows "gridcode_a r = fst m" "area_hectares_a r = fst (snd m)" "entry_a r = snd (snd m)"
    "percentage_of_total_a r = percentage_of_area t (fst (snd m))"
    "pd_cut (percentage_of_total_a r) bins labels = Some (rarity_score r)"
    "aesthetic_quality_score r =
       naturalness (entry_a r) * naturalness_weight + of_int (rarity_score r) * rarity_weight"
  using assms by (auto simp: aesthetic_one_def split: prod.splits option.splits)

lemma process_aesthetic_quality_Inr:
  assumes "process_aesthetic_quality df lookup = Inr (w, rs)"
  shows "w = []"
    and "map (aesthetic_one (sum_list (map (\<lambda>m. fst (snd m))
             (dropna_class (merge_lookup (groupby_sum (cells df)) lookup)))))
           (dropna_class (merge_lookup (groupby_sum (cells df)) lookup)) = map Inr rs"
  using assms
  by (auto simp: process_aesthetic_quality_def Let_def split: option.splits sum.splits
      dest: collect_Inr)

lemma map_aesthetic_one_fields:
  "map (aesthetic_one t) ms = map Inr rs \<Longrightarrow>
     map (\<lambda>r. (gridcode_a r, area_hectares_a r, entry_a r)) rs = ms"
proof (induction ms arbitrary: rs)
  case Nil
  then show ?case by simp
next
  case (Cons m ms)
  then obtain r rs' where rs: "rs = r # rs'" by (cases rs) auto
  with Cons.prems have "aesthetic_one t m = Inr r" "map (aesthetic_one t) ms = map Inr rs'"
    by auto
  with Cons.IH rs show ?case
    by (auto simp: aesthetic_one_Inr)
qed

lemma groupby_df_aesthetic: "groupby_sum (cells df_aesthetic) = [(1, 1), (2, 199), (7, 3)]"
  by (simp add: df_aesthetic_def groupby_sum_def sum_skipna_def List.map_filter_simps)

lemma process_df_aesthetic:
  "process_aesthetic_quality df_aesthetic [e1, e2] = Inr ([], [row_aesthetic1, row_aesthetic2])"
  apply (simp add: process_aesthetic_quality_def required_cols_def groupby_df_aesthetic)
  apply (simp add: df_aesthetic_def merge_lookup_def merge_one_def e1_def e2_def
      dropna_class_def List.map_filter_simps aesthetic_one_def percentage_of_area_def cut_bins
      naturalness_weight_def rarity_weight_def row_aesthetic1_def row_aesthetic2_def)
  done

text \<open>
  C2. Every row of the aesthetic result is a matched row (and every matched row is in
  it). Its percentage is its area over the aggregate area of the run's rows (the matched
  rows, which are the rows of the frame when the total is taken), times 100. The rarity
  score follows the right-inclusive thresholds: at most 1 gives 5, above 1 and at most 5
  gives 4, above 5 and at most 15 gives 3, above 15 and at most 30 gives 2, above 30
  gives 1; in particular 1.0 gives 5, 1.0001 gives 4, 30.0 gives 2 and 30.0001 gives 1.
  The score is naturalness times 0.67 plus rarity times 0.33.
\<close>

theorem aesthetic_rarity_and_score:
  assumes "process_aesthetic_quality df lookup = Inr (w, rs)" and "r \<in> set rs"
  shows "map (\<lambda>r. (gridcode_a r, area_hectares_a r, entry_a r)) rs =
           dropna_class (merge_lookup (groupby_sum (cells df)) lookup)
     \<and> percentage_of_total_a r =
           fmul (fdiv (Fin (area_hectares_a r)) (Fin (sum_list (map area_hectares_a rs))))
             (Fin 100)
     \<and> (fle (percentage_of_total_a r) (Fin 1) \<longrightarrow> rarity_score r = 5)
     \<and> (fless (Fin 1) (percentage_of_total_a r) \<and> fle (percentage_of_total_a r) (Fin 5)
           \<longrightarrow> rarity_score r = 4)
     \<and> (fless (Fin 5) (percentage_of_total_a r) \<and> fle (percentage_of_total_a r) (Fin 15)
           \<longrightarrow> rarity_score r = 3)
     \<and> (fless (Fin 15) (percentage_of_total_a r) \<and> fle (percentage_of_total_a r) (Fin 30)
           \<longrightarrow> rarity_score r = 2)
     \<and> (fless (Fin 30) (percentage_of_total_a r) \<longrightarrow> rarity_score r = 1)
     \<and> aesthetic_quality_score r =
           naturalness (entry_a r) * (67 / 100) + of_int (rarity_score r) * (33 / 100)
     \<and> pd_cut (Fin 1) bins labels = Some 5
     \<and> pd_cut (Fin (10001 / 10000)) bins labels = Some 4
     \<and> pd_cut (Fin 30) bins labels = Some 2
     \<and> pd_cut (Fin (300001 / 10000)) bins labels = Some 1"
proof -
  let ?ms = "dropna_class (merge_lookup (groupby_sum (cells df)) lookup)"
  let ?t = "sum_list (map (\<lambda>m. fst (snd m)) ?ms)"
  have m: "map (aesthetic_one ?t) ?ms = map Inr rs"
    using assms(1) by (rule process_aesthetic_quality_Inr)
  have fields: "map (\<lambda>r. (gridcode_a r, area_hectares_a r, entry_a r)) rs = ?ms"
    using m by (rule map_aesthetic_one_fields)
  have "map (\<lambda>m. fst (snd m)) ?ms = map area_hectares_a rs"
    by (subst fields [symmetric]) (simp add: comp_def)
  then have t: "?t = sum_list (map area_hectares_a rs)" by simp
  from assms(2) m obtain x where x: "x \<in> set ?ms" "aesthetic_one ?t x = Inr r"
    by (metis (no_types, lifting) image_iff list.set_map)
  note one = aesthetic_one_Inr [OF x(2)]
  have pct: "percentage_of_total_a r =
      fmul (fdiv (Fin (area_hectares_a r)) (Fin (sum_list (map area_hectares_a rs)))) (Fin 100)"
    using one(2,4) t by (simp add: percentage_of_area_def)
  have c: "pd_cut (percentage_of_total_a r) bins labels = Some (rarity_score r)"
    by (rule one(5))
  have b1: "fle (percentage_of_total_a r) (Fin 1) \<longrightarrow> rarity_score r = 5"
    using c by (cases "percentage_of_total_a r") (auto simp: cut_bins split: if_splits)
  have b2: "fless (Fin 1) (percentage_of_total_a r) \<and> fle (percentage_of_total_a r) (Fin 5)
           \<longrightarrow> rarity_score r = 4"
    using c by (cases "percentage_of_total_a r") (auto simp: cut_bins split: if_splits)
  have b3: "fless (Fin 5) (percentage_of_total_a r) \<and> fle (percentage_of_total_a r) (Fin 15)
           \<longrightarrow> rarity_score r = 3"
    using c by (cases "percentage_of_total_a r") (auto simp: cut_bins split: if_splits)
  have b4: "fless (Fin 15) (percentage_of_total_a r) \<and> fle (percentage_of_total_a r) (Fin 30)
           \<longrightarrow> rarity_score r = 2"
    using c by (cases "percentage_of_total_a r") (auto simp: cut_bins split: if_splits)
  have b5: "fless (Fin 30) (percentage_of_total_a r) \<longrightarrow> rarity_score r = 1"
    using c by (cases "percentage_of_total_a r") (auto simp: cut_bins split: if_splits)
  have s: "aesthetic_quality_score r =
           naturalness (entry_a r) * (67 / 100) + of_int (rarity_score r) * (33 / 100)"
    using one(6) by (simp add: naturalness_weight_def rarity_weight_def)
  have k: "pd_cut (Fin 1) bins labels = Some 5"
    "pd_cut (Fin (10001 / 10000)) bins labels = Some 4"
    "pd_cut (Fin 30) bins labels = Some 2"
    "pd_cut (Fin (300001 / 10000)) bins labels = Some 1"
    by (simp_all add: cut_bins)
  show ?thesis using fields pct b1 b2 b3 b4 b5 s k by blast
qed

theorem aesthetic_rarity_and_score_witness:
  "process_aesthetic_quality df_aesthetic [e1, e2] = Inr ([], [row_aesthetic1, row_aesthetic2])
   \<and> percentage_of_total_a row_aesthetic1 = Fin (1 / 2)
   \<and> rarity_score row_aesthetic1 = 5
   \<and> aesthetic_quality_score row_aesthetic1 = 5 * (67 / 100) + 5 * (33 / 100)
   \<and> percentage_of_total_a row_aesthetic2 = Fin (199 / 2)
   \<and> rarity_score row_aesthetic2 = 1
   \<and> aesthetic_quality_score row_aesthetic2 = 4 * (67 / 100) + 1 * (33 / 100)"
proof -
  have p: "process_aesthetic_quality df_aesthetic [e1, e2] =
      Inr ([], [row_aesthetic1, row_aesthetic2])"
    by (rule process_df_aesthetic)
  have a: "row_aesthetic1 \<in> set [row_aesthetic1, row_aesthetic2]" by simp
  have b: "row_aesthetic2 \<in> set [row_aesthetic1, row_aesthetic2]" by simp
  note t1 = aesthetic_rarity_and_score [OF p a]
  note t2 = aesthetic_rarity_and_score [OF p b]
  have p1: "percentage_of_total_a row_aesthetic1 = Fin (1 / 2)"
    using t1 by (simp add: row_aesthetic1_def row_aesthetic2_def)
  have p2: "percentage_of_total_a row_aesthetic2 = Fin (199 / 2)"
    using t2 by (simp add: row_aesthetic1_def row_aesthetic2_def)
  have r1: "rarity_score row_aesthetic1 = 5"
    using t1 unfolding p1 by simp
  have r2: "rarity_score row_aesthetic2 = 1"
    using t2 unfolding p2 by simp
  have s1: "aesthetic_quality_score row_aesthetic1 = 5 * (67 / 100) + 5 * (33 / 100)"
    using t1 unfolding r1 by (simp add: row_aesthetic1_def e1_def)
  have s2: "aesthetic_quality_score row_aesthetic2 = 4 * (67 / 100) + 1 * (33 / 100)"
    using t2 unfolding r2 by (simp add: row_aesthetic2_def e2_def)
  show ?thesis using p p1 p2 r1 r2 s1 s2 by simp
qed

section \<open>Carbon: totals, stored social cost and density\<close>

lemma carbon_rows:
  assumes "process_carbon_sequestration df lookup = Inr (w, rs)"
  shows "w = missing_warning (merge_lookup (groupby_sum (cells df)) lookup)"
    and "rs = map (carbon_one (total_carbon (merge_lookup (groupby_sum (cells df)) lookup)))
                (merge_lookup (groupby_sum (cells df)) lookup)"
  using assms
  by (auto simp: process_carbon_sequestration_def Let_def split: option.splits)

lemma groupby_df_carbon: "groupby_sum (cells df_carbon) = [(1, 50004 / 100000), (9, 0)]"
  by (simp add: df_carbon_def groupby_sum_def sum_skipna_def List.map_filter_simps)

lemma process_df_carbon:
  "process_carbon_sequestration df_carbon [e1] =
     Inr ([MissingLookupEntries [9]], [row_carbon, row_carbon_missing])"
  apply (simp add: process_carbon_sequestration_def required_cols_def groupby_df_carbon)
  apply (simp add: df_carbon_def merge_lookup_def merge_one_def e1_def missing_warning_def
      missing_codes_def unique_def col_def total_carbon_def carbon_of_def carbon_one_def
      row_carbon_def row_carbon_missing_def)
  done

lemma save_row_carbon:
  "ssc_d (save_carbon_row row_carbon) = 252 / 10000"
  "ssc_density (save_carbon_row row_carbon) = Fin (504 / 10000)"
  "round_np 6 (ssc_d (save_carbon_row row_carbon) / area_hectares row_carbon)
     = 50396 / 1000000"
  by (simp_all add: save_carbon_row_def row_carbon_def Let_def round_np_def rint_def)

text \<open>
  C3, as the code has it. For every row of the carbon result, total carbon is the sum of
  the four components, each missing one counted as zero, times the area, and is always
  a number. The stored social cost is total carbon times 252 over a million, rounded to
  4 decimals. The stored density is the stored social cost over the stored area (the
  area rounded to 4 decimals), rounded to 6 decimals, and 0 when the stored area is 0;
  it is never infinite or missing.
\<close>

theorem carbon_formulas:
  assumes "process_carbon_sequestration df lookup = Inr (w, rs)" and "r \<in> set rs"
  shows "total_carbon_tc r =
           (fillna0 (col agc_tc_ha r) + fillna0 (col bgc_tc_ha r) + fillna0 (col soc_tc_ha r)
              + fillna0 (col deoc_tc_ha r)) * area_hectares r
     \<and> ssc_d (save_carbon_row r) = round_np 4 (total_carbon_tc r * 252 / 1000000)
     \<and> area_hectares_d (save_carbon_row r) = round_np 4 (area_hectares r)
     \<and> ssc_density (save_carbon_row r) =
         (if area_hectares_d (save_carbon_row r) = 0 then Fin 0
          else Fin (round_np 6
                 (ssc_d (save_carbon_row r) / area_hectares_d (save_carbon_row r))))"
proof -
  from assms(2) obtain m where
    r: "r = carbon_one (total_carbon (merge_lookup (groupby_sum (cells df)) lookup)) m"
    using carbon_rows(2) [OF assms(1)] by auto
  show ?thesis
    unfolding r
    by (simp add: carbon_one_def carbon_of_def col_def save_carbon_row_def Let_def
        density_cases)
qed

theorem carbon_formulas_witness:
  "process_carbon_sequestration df_carbon [e1] =
     Inr ([MissingLookupEntries [9]], [row_carbon, row_carbon_missing])
   \<and> total_carbon_tc row_carbon_missing = 0
   \<and> ssc_density (save_carbon_row row_carbon_missing) = Fin 0
   \<and> ssc_d (save_carbon_row row_carbon) = 252 / 10000
   \<and> ssc_density (save_carbon_row row_carbon) = Fin (504 / 10000)"
proof -
  have p: "process_carbon_sequestration df_carbon [e1] =
     Inr ([MissingLookupEntries [9]], [row_carbon, row_carbon_missing])"
    by (rule process_df_carbon)
  have a: "row_carbon_missing \<in> set [row_carbon, row_carbon_missing]" by simp
  have b: "row_carbon \<in> set [row_carbon, row_carbon_missing]" by simp
  note m = carbon_formulas [OF p a]
  note r = carbon_formulas [OF p b]
  have m1: "total_carbon_tc row_carbon_missing = 0"
    using m by (simp add: row_carbon_missing_def col_def)
  have m2: "ssc_density (save_carbon_row row_carbon_missing) = Fin 0"
    using m by (simp add: row_carbon_missing_def round_np_def rint_def)
  have r1: "ssc_d (save_carbon_row row_carbon) = 252 / 10000"
    using r by (simp add: row_carbon_def round_np_def rint_def)
  have r0: "area_hectares_d (save_carbon_row row_carbon) = 1 / 2"
    using r by (simp add: row_carbon_def round_np_def rint_def)
  have "ssc_density (save_carbon_row row_carbon) =
         (if area_hectares_d (save_carbon_row row_carbon) = 0 then Fin 0
          else Fin (round_np 6 (ssc_d (save_carbon_row row_carbon)
                 / area_hectares_d (save_carbon_row row_carbon))))"
    using r by blast
  then have r2: "ssc_density (save_carbon_row row_carbon) = Fin (504 / 10000)"
    unfolding r0 r1 by (simp add: round_np_def rint_def)
  show ?thesis using p m1 m2 r1 r2 by simp
qed

text \<open>
  C3 as stated fails: the density is not the stored social cost over the area of the
  row. For an area of 0.50004 ha with 200 tC/ha the stored social cost is 0.0252 and
  the stored density is 0.0252 / 0.5 = 0.0504, not 0.0252 / 0.50004 rounded, 0.050396.
\<close>

theorem density_uses_rounded_area:
  "process_carbon_sequestration df_carbon [e1] =
     Inr ([MissingLookupEntries [9]], [row_carbon, row_carbon_missing])
   \<and> area_hectares row_carbon \<noteq> 0
   \<and> ssc_density (save_carbon_row row_carbon) \<noteq>
       Fin (round_np 6 (ssc_d (save_carbon_row row_carbon) / area_hectares row_carbon))"
  using process_df_carbon save_row_carbon by (simp add: row_carbon_def)

section \<open>Rows without a reference entry or a wetland value\<close>

lemma dropna_class_set:
  "(g, a, e) \<in> set (dropna_class ms) \<longleftrightarrow>
     (\<exists>m\<in>set ms. gridcode m = g \<and> area_hectares m = a \<and> entry m = Some e)"
  by (force simp: dropna_class_def List.map_filter_def image_iff)

lemma merge_wf_one_nonempty: "merge_wf_one wf_df m \<noteq> []"
  by (simp add: merge_wf_one_def split: list.splits)

lemma merge_wf_one_fields:
  assumes "mv \<in> set (merge_wf_one wf_df m)"
  shows "fst mv = m"
    and "col solris_class m \<notin> fst ` set wf_df \<Longrightarrow> snd mv = None"
proof -
  show "fst mv = m"
    using assms by (auto simp: merge_wf_one_def split: list.splits)
  assume "col solris_class m \<notin> fst ` set wf_df"
  then have "filter (\<lambda>w. fst w = col solris_class m) wf_df = []"
    by (force simp: filter_empty_conv image_iff)
  with assms show "snd mv = None" by (simp add: merge_wf_one_def)
qed

lemma merge_wf_set:
  "mv \<in> set (merge_wf ms wf_df) \<longleftrightarrow> (\<exists>m\<in>set ms. mv \<in> set (merge_wf_one wf_df m))"
  by (auto simp: merge_wf_def)

lemma merge_wf_keeps:
  assumes "m \<in> set ms"
  shows "\<exists>mv\<in>set (merge_wf ms wf_df). fst mv = m"
proof -
  obtain mv where mv: "mv \<in> set (merge_wf_one wf_df m)"
    using merge_wf_one_nonempty [of wf_df m] by (cases "merge_wf_one wf_df m") auto
  then have "mv \<in> set (merge_wf ms wf_df)" using assms by (auto simp: merge_wf_set)
  with merge_wf_one_fields(1) [OF mv] show ?thesis by blast
qed

lemma float_key_column_iff:
  "float_key_column wf_df \<longleftrightarrow> wf_df \<noteq> [] \<and> (\<forall>w\<in>set wf_df. fst w = None)"
  by (simp add: float_key_column_def list_all_iff)

lemma no_blank_name_no_float_column:
  assumes "None \<notin> fst ` set wf_df"
  shows "\<not> float_key_column wf_df"
proof
  assume f: "float_key_column wf_df"
  then obtain w where "w \<in> set wf_df" by (cases wf_df) (auto simp: float_key_column_iff)
  with f have "w \<in> set wf_df" "fst w = None" by (auto simp: float_key_column_iff)
  then have "None \<in> fst ` set wf_df" by force
  with assms show False by simp
qed

lemma process_water_filtration_returns:
  assumes "set required_cols \<subseteq> set (columns df)"
    and "\<not> float_key_column wf_df"
  shows "process_water_filtration df lookup wf_df =
     Inr ([], map (water_one (total_wf (merge_wf (merge_lookup (groupby_sum (cells df)) lookup) wf_df)))
                (merge_wf (merge_lookup (groupby_sum (cells df)) lookup) wf_df))"
  using assms check_required_None [of required_cols "columns df"]
  by (simp add: process_water_filtration_def Let_def)

lemma process_biocapacity_data_log:
  assumes "set required_cols \<subseteq> set (columns df)"
  shows "fst (process_biocapacity_data df lookup) =
           missing_warning (merge_lookup (groupby_sum (cells df)) lookup)"
  using assms check_required_None [of required_cols "columns df"]
  by (simp add: process_biocapacity_data_def Let_def)

lemma process_biocapacity_data_returns:
  assumes "set required_cols \<subseteq> set (columns df)" and "lookup \<noteq> []"
  shows "process_biocapacity_data df lookup =
     (missing_warning (merge_lookup (groupby_sum (cells df)) lookup),
      Inr (map (bio_one (total_biocapacity (merge_lookup (groupby_sum (cells df)) lookup)))
            (merge_lookup (groupby_sum (cells df)) lookup)))"
  using assms check_required_None [of required_cols "columns df"]
  by (simp add: process_biocapacity_data_def Let_def)

lemma process_carbon_sequestration_returns:
  assumes "set required_cols \<subseteq> set (columns df)"
  shows "process_carbon_sequestration df lookup =
     Inr (missing_warning (merge_lookup (groupby_sum (cells df)) lookup),
          map (carbon_one (total_carbon (merge_lookup (groupby_sum (cells df)) lookup)))
            (merge_lookup (groupby_sum (cells df)) lookup))"
  using assms check_required_None [of required_cols "columns df"]
  by (simp add: process_carbon_sequestration_def Let_def)

lemma water_percentage_cases:
  "(if t \<noteq> 0 then fillna (fmul (fdiv (Fin x) (Fin t)) (Fin 100)) else Fin 0) =
     Fin (if t \<noteq> 0 then x / t * 100 else 0)"
  by simp

lemma water_one_fields [simp]:
  "gridcode (water_one t mv) = gridcode (fst mv)"
  "area_hectares (water_one t mv) = area_hectares (fst mv)"
  "entry (water_one t mv) = entry (fst mv)"
  "wf_value_per_ha (water_one t mv) = fillna0 (snd mv)"
  "total_wf_value (water_one t mv) = wf_value_of mv"
  "percentage_of_total_w (water_one t mv) =
     Fin (if t \<noteq> 0 then wf_value_of mv / t * 100 else 0)"
  by (simp_all add: water_one_def)

lemma bio_one_fields [simp]:
  "gridcode (bio_one t m) = gridcode m"
  "area_hectares (bio_one t m) = area_hectares m"
  "entry (bio_one t m) = entry m"
  "biocapacity_gha (bio_one t m) = gha_of m"
  "percentage_of_total_b (bio_one t m) = fmul (fdiv (of_cell (gha_of m)) (Fin t)) (Fin 100)"
  by (simp_all add: bio_one_def)

lemma carbon_one_fields [simp]:
  "gridcode (carbon_one t m) = gridcode m"
  "area_hectares (carbon_one t m) = area_hectares m"
  "entry (carbon_one t m) = entry m"
  "total_carbon_tc (carbon_one t m) = carbon_of m"
  "ssc (carbon_one t m) = carbon_of m * 252"
  "percentage_of_total_c (carbon_one t m) =
     Fin (if t \<noteq> 0 then carbon_of m / t * 100 else 0)"
  by (simp_all add: carbon_one_def)

text \<open>
  C6, as the code has it. When the area source has its two columns and the wetland-value
  table is empty or holds a name in at least one row, the water calculator returns without
  raising and logs nothing. In every row whose class name has no entry in the
  wetland-value table the per-hectare value is 0 and so is the total; in every row the
  total is the area times the per-hectare value rounded to 4 decimals; every percentage is
  a number, and when the set-wide total is zero every percentage is 0.
\<close>

theorem water_defaults_and_rounding:
  assumes "set required_cols \<subseteq> set (columns df)"
    and "wf_df = [] \<or> (\<exists>w\<in>set wf_df. fst w \<noteq> None)"
  shows "\<exists>rs. process_water_filtration df lookup wf_df = Inr ([], rs)
     \<and> (\<forall>r\<in>set rs.
          (col solris_class r \<notin> fst ` set wf_df
             \<longrightarrow> wf_value_per_ha r = 0 \<and> total_wf_value r = 0)
        \<and> total_wf_value r = round_np 4 (area_hectares r * wf_value_per_ha r)
        \<and> (\<exists>p. percentage_of_total_w r = Fin p)
        \<and> (sum_list (map total_wf_value rs) = 0 \<longrightarrow> percentage_of_total_w r = Fin 0))"
proof -
  let ?ms = "merge_wf (merge_lookup (groupby_sum (cells df)) lookup) wf_df"
  let ?rs = "map (water_one (total_wf ?ms)) ?ms"
  have n: "\<not> float_key_column wf_df"
    using assms(2) by (auto simp: float_key_column_iff)
  have p: "process_water_filtration df lookup wf_df = Inr ([], ?rs)"
    using assms(1) n by (rule process_water_filtration_returns)
  have t: "sum_list (map total_wf_value ?rs) = total_wf ?ms"
    by (simp add: total_wf_def comp_def)
  have "(col solris_class r \<notin> fst ` set wf_df
             \<longrightarrow> wf_value_per_ha r = 0 \<and> total_wf_value r = 0)
        \<and> total_wf_value r = round_np 4 (area_hectares r * wf_value_per_ha r)
        \<and> (\<exists>p. percentage_of_total_w r = Fin p)
        \<and> (sum_list (map total_wf_value ?rs) = 0 \<longrightarrow> percentage_of_total_w r = Fin 0)"
    if "r \<in> set ?rs" for r
  proof -
    from that obtain mv where mv: "mv \<in> set ?ms" "r = water_one (total_wf ?ms) mv" by auto
    then obtain m where m: "mv \<in> set (merge_wf_one wf_df m)" by (auto simp: merge_wf_set)
    have f: "fst mv = m" using m by (rule merge_wf_one_fields)
    have "snd mv = None" if "col solris_class r \<notin> fst ` set wf_df"
      using that merge_wf_one_fields(2) [OF m] by (simp add: mv(2) f col_def)
    then show ?thesis
      unfolding t by (auto simp: mv(2) wf_value_of_def)
  qed
  with p show ?thesis by blast
qed

text \<open>
  C9, as the code has it. When the wetland-value table has no entry with an empty
  \<open>wetland_type\<close>, a code of the area source that the reference table lacks keeps its
  row in the water result, with a null class name, a per-hectare value of 0 and a total
  of 0, and the water calculator logs nothing. The biocapacity and the carbon calculator
  log the warning that lists the missing codes on the same input.
\<close>

theorem water_keeps_unmatched_codes:
  assumes "set required_cols \<subseteq> set (columns df)"
    and "Some c \<in> fst ` set (cells df)"
    and "c \<notin> solris_code ` set lookup"
    and "None \<notin> fst ` set wf_df"
  shows "(\<exists>rs. process_water_filtration df lookup wf_df = Inr ([], rs)
           \<and> (\<exists>r\<in>set rs. gridcode r = c)
           \<and> (\<forall>r\<in>set rs. gridcode r = c \<longrightarrow>
                 col solris_class r = None
               \<and> wf_value_per_ha r = 0 \<and> total_wf_value r = 0))
     \<and> fst (process_biocapacity_data df lookup) =
         [MissingLookupEntries (missing_codes (merge_lookup (groupby_sum (cells df)) lookup))]
     \<and> (\<exists>rs. process_carbon_sequestration df lookup =
           Inr ([MissingLookupEntries
                   (missing_codes (merge_lookup (groupby_sum (cells df)) lookup))], rs))"
proof -
  let ?ml = "merge_lookup (groupby_sum (cells df)) lookup"
  let ?ms = "merge_wf ?ml wf_df"
  let ?rs = "map (water_one (total_wf ?ms)) ?ms"
  have n: "\<not> float_key_column wf_df"
    using assms(4) by (rule no_blank_name_no_float_column)
  have p: "process_water_filtration df lookup wf_df = Inr ([], ?rs)"
    using assms(1) n by (rule process_water_filtration_returns)
  have "c \<in> gridcode ` set ?ml"
    using assms(2) by (simp add: merged_codes)
  then obtain m where m: "m \<in> set ?ml" "gridcode m = c" by auto
  then obtain mv where mv: "mv \<in> set ?ms" "fst mv = m"
    using merge_wf_keeps by blast
  then have ex: "\<exists>r\<in>set ?rs. gridcode r = c"
    using m(2) by (auto intro!: bexI [of _ mv])
  have all: "col solris_class r = None \<and> wf_value_per_ha r = 0 \<and> total_wf_value r = 0"
    if "r \<in> set ?rs" "gridcode r = c" for r
  proof -
    from that obtain mv where mv: "mv \<in> set ?ms" "r = water_one (total_wf ?ms) mv" by auto
    then obtain m where m: "m \<in> set ?ml" "mv \<in> set (merge_wf_one wf_df m)"
      by (auto simp: merge_wf_set)
    have f: "fst mv = m" using m(2) by (rule merge_wf_one_fields)
    have "gridcode m = c" using that(2) by (simp add: mv(2) f)
    then have e: "entry m = None"
      using merged_entry [OF m(1)] assms(3) by simp
    then have k: "col solris_class m = None" by (simp add: col_def)
    have "snd mv = None"
      using assms(4) merge_wf_one_fields(2) [OF m(2)] k by simp
    then show ?thesis
      using e by (auto simp: mv(2) f col_def wf_value_of_def)
  qed
  have w: "missing_warning ?ml = [MissingLookupEntries (missing_codes ?ml)]"
    using assms(2,3) by (rule missing_warning_present)
  have b: "fst (process_biocapacity_data df lookup) = [MissingLookupEntries (missing_codes ?ml)]"
    using process_biocapacity_data_log [OF assms(1)] w by simp
  have cc: "\<exists>rs. process_carbon_sequestration df lookup =
           Inr ([MissingLookupEntries (missing_codes ?ml)], rs)"
    using process_carbon_sequestration_returns [OF assms(1)] w by simp
  from p ex all b cc show ?thesis by blast
qed

text \<open>
  C7, as the code has it. For a code of the area source that a reference table with at
  least one row lacks, the biocapacity and the carbon calculator keep the row, with every
  reference column null, and log one warning that lists exactly the codes without a
  reference entry. In the biocapacity result the computed biocapacity and its percentage
  are undefined for the row; in the carbon result the computed columns are defined: total
  carbon 0, social cost 0 and percentage 0. The aesthetic calculator logs nothing and has
  no row for the code.
\<close>

theorem missing_reference_policy:
  assumes "set required_cols \<subseteq> set (columns df)"
    and "Some c \<in> fst ` set (cells df)"
    and "c \<notin> solris_code ` set lookup"
    and "lookup \<noteq> []"
  shows "(\<exists>rs. process_biocapacity_data df lookup =
                 ([MissingLookupEntries
                     (missing_codes (merge_lookup (groupby_sum (cells df)) lookup))], Inr rs)
           \<and> (\<exists>r\<in>set rs. gridcode r = c)
           \<and> (\<forall>r\<in>set rs. gridcode r = c \<longrightarrow>
                 entry r = None \<and> col biocapacity_conversion_factor r = None
               \<and> biocapacity_gha r = None \<and> percentage_of_total_b r = NaN))
     \<and> (\<exists>rs. process_carbon_sequestration df lookup =
                 Inr ([MissingLookupEntries
                         (missing_codes (merge_lookup (groupby_sum (cells df)) lookup))], rs)
           \<and> (\<exists>r\<in>set rs. gridcode r = c)
           \<and> (\<forall>r\<in>set rs. gridcode r = c \<longrightarrow>
                 entry r = None \<and> col agc_tc_ha r = None \<and> col bgc_tc_ha r = None
               \<and> col soc_tc_ha r = None \<and> col deoc_tc_ha r = None
               \<and> total_carbon_tc r = 0 \<and> ssc r = 0 \<and> percentage_of_total_c r = Fin 0))
     \<and> set (missing_codes (merge_lookup (groupby_sum (cells df)) lookup)) =
         {g. Some g \<in> fst ` set (cells df) \<and> g \<notin> solris_code ` set lookup}
     \<and> (\<forall>w rs. process_aesthetic_quality df lookup = Inr (w, rs)
           \<longrightarrow> w = [] \<and> c \<notin> gridcode_a ` set rs)"
proof -
  let ?ml = "merge_lookup (groupby_sum (cells df)) lookup"
  let ?bs = "map (bio_one (total_biocapacity ?ml)) ?ml"
  let ?cs = "map (carbon_one (total_carbon ?ml)) ?ml"
  have w: "missing_warning ?ml = [MissingLookupEntries (missing_codes ?ml)]"
    using assms(2,3) by (rule missing_warning_present)
  have pb: "process_biocapacity_data df lookup =
      ([MissingLookupEntries (missing_codes ?ml)], Inr ?bs)"
    using process_biocapacity_data_returns [OF assms(1,4)] w by simp
  have pc: "process_carbon_sequestration df lookup =
      Inr ([MissingLookupEntries (missing_codes ?ml)], ?cs)"
    using process_carbon_sequestration_returns [OF assms(1)] w by simp
  have "c \<in> gridcode ` set ?ml"
    using assms(2) by (simp add: merged_codes)
  then obtain m where m: "m \<in> set ?ml" "gridcode m = c" by auto
  have exb: "\<exists>r\<in>set ?bs. gridcode r = c"
    using m by (auto intro!: bexI [of _ m])
  have exc: "\<exists>r\<in>set ?cs. gridcode r = c"
    using m by (auto intro!: bexI [of _ m])
  have none: "entry m = None" if "m \<in> set ?ml" "gridcode m = c" for m
    using merged_entry [OF that(1)] that(2) assms(3) by simp
  have allb: "\<forall>r\<in>set ?bs. gridcode r = c \<longrightarrow>
                 entry r = None \<and> col biocapacity_conversion_factor r = None
               \<and> biocapacity_gha r = None \<and> percentage_of_total_b r = NaN"
    using none by (auto simp: col_def gha_of_def)
  have allc: "\<forall>r\<in>set ?cs. gridcode r = c \<longrightarrow>
                 entry r = None \<and> col agc_tc_ha r = None \<and> col bgc_tc_ha r = None
               \<and> col soc_tc_ha r = None \<and> col deoc_tc_ha r = None
               \<and> total_carbon_tc r = 0 \<and> ssc r = 0 \<and> percentage_of_total_c r = Fin 0"
    using none by (auto simp: col_def carbon_of_def)
  have ms: "set (missing_codes ?ml) =
         {g. Some g \<in> fst ` set (cells df) \<and> g \<notin> solris_code ` set lookup}"
    by (rule missing_codes_set)
  have aes: "w = [] \<and> c \<notin> gridcode_a ` set rs"
    if "process_aesthetic_quality df lookup = Inr (w, rs)" for w rs
  proof -
    have f: "map (\<lambda>r. (gridcode_a r, area_hectares_a r, entry_a r)) rs = dropna_class ?ml"
      using process_aesthetic_quality_Inr(2) [OF that] by (rule map_aesthetic_one_fields)
    have "gridcode_a r \<noteq> c" if "r \<in> set rs" for r
    proof -
      have "(gridcode_a r, area_hectares_a r, entry_a r) \<in> set (dropna_class ?ml)"
        using that by (subst f [symmetric]) auto
      then obtain m where "m \<in> set ?ml" "gridcode m = gridcode_a r" "entry m = Some (entry_a r)"
        by (auto simp: dropna_class_set)
      then show ?thesis using none by force
    qed
    then show ?thesis using process_aesthetic_quality_Inr(1) [OF that] by auto
  qed
  from pb exb allb pc exc allc ms aes show ?thesis by blast
qed

section \<open>The calculators on concrete inputs\<close>

lemma required_cols_df_water: "set required_cols \<subseteq> set (columns df_water)"
  by (simp add: required_cols_def df_water_def)

lemma required_cols_df_aesthetic: "set required_cols \<subseteq> set (columns df_aesthetic)"
  by (simp add: required_cols_def df_aesthetic_def)

lemma required_cols_df_carbon: "set required_cols \<subseteq> set (columns df_carbon)"
  by (simp add: required_cols_def df_carbon_def)

lemma groupby_df_water: "groupby_sum (cells df_water) = [(1, 4), (2, 3), (9, 2)]"
  by (simp add: df_water_def groupby_sum_def sum_skipna_def List.map_filter_simps)

lemma merged_df_water:
  "merge_lookup (groupby_sum (cells df_water)) [e1, e2] =
     [\<lparr>gridcode = 1, area_hectares = 4, entry = Some e1\<rparr>,
      \<lparr>gridcode = 2, area_hectares = 3, entry = Some e2\<rparr>,
      \<lparr>gridcode = 9, area_hectares = 2, entry = None\<rparr>]"
  by (simp add: groupby_df_water merge_lookup_def merge_one_def e1_def e2_def)

lemma wf_marsh_text: "\<not> float_key_column wf_marsh"
  by (simp add: float_key_column_def wf_marsh_def)

lemma wf_blank_text: "\<not> float_key_column wf_blank"
  by (simp add: float_key_column_def wf_blank_def)

lemma wf_bog_text: "\<not> float_key_column wf_bog"
  by (simp add: float_key_column_def wf_bog_def)

lemma process_df_water_marsh:
  "process_water_filtration df_water [e1, e2] wf_marsh =
     Inr ([], [row_water1, row_water2, row_water9])"
  apply (simp add: process_water_filtration_returns [OF required_cols_df_water wf_marsh_text]
      merged_df_water)
  apply (simp add: merge_wf_def merge_wf_one_def wf_marsh_def col_def e1_def e2_def
      total_wf_def wf_value_of_def water_one_def round_np_def rint_def
      row_water1_def row_water2_def row_water9_def)
  done

lemma process_df_water_blank:
  "process_water_filtration df_water [e1, e2] wf_blank =
     Inr ([], [row_water1, row_water2_blank, row_water9_blank])"
  apply (simp add: process_water_filtration_returns [OF required_cols_df_water wf_blank_text]
      merged_df_water)
  apply (simp add: merge_wf_def merge_wf_one_def wf_blank_def col_def e1_def e2_def
      total_wf_def wf_value_of_def water_one_def round_np_def rint_def
      row_water1_def row_water2_blank_def row_water9_blank_def)
  done

lemma process_df_water_bog:
  "process_water_filtration df_water [e1, e2] wf_bog =
     Inr ([], [row_water1, row_water2_zero, row_water9])"
  apply (simp add: process_water_filtration_returns [OF required_cols_df_water wf_bog_text]
      merged_df_water)
  apply (simp add: merge_wf_def merge_wf_one_def wf_bog_def col_def e1_def e2_def
      total_wf_def wf_value_of_def water_one_def
      row_water1_def row_water2_zero_def row_water9_def)
  done

lemma process_df_water_no_name:
  "process_water_filtration df_water [e1, e2] wf_no_name = Inl MergeOnObjectAndFloat"
  using required_cols_df_water check_required_None [of required_cols "columns df_water"]
  by (simp add: process_water_filtration_def merged_df_water text_key_column_def
      float_key_column_def wf_no_name_def col_def)

theorem water_defaults_and_rounding_witness:
  "set required_cols \<subseteq> set (columns df_water)
   \<and> (\<exists>w\<in>set wf_marsh. fst w \<noteq> None)
   \<and> process_water_filtration df_water [e1, e2] wf_marsh =
       Inr ([], [row_water1, row_water2, row_water9])
   \<and> col solris_class row_water1 \<notin> fst ` set wf_marsh
   \<and> wf_value_per_ha row_water1 = 0 \<and> total_wf_value row_water1 = 0
   \<and> total_wf_value row_water2 = round_np 4 (3 * (123456789 / 100000))
   \<and> (\<exists>w\<in>set wf_bog. fst w \<noteq> None)
   \<and> process_water_filtration df_water [e1, e2] wf_bog =
       Inr ([], [row_water1, row_water2_zero, row_water9])
   \<and> sum_list (map total_wf_value [row_water1, row_water2_zero, row_water9]) = 0
   \<and> percentage_of_total_w row_water2_zero = Fin 0"
proof -
  note c = required_cols_df_water
  have m: "\<exists>w\<in>set wf_marsh. fst w \<noteq> None" by (simp add: wf_marsh_def)
  have g: "\<exists>w\<in>set wf_bog. fst w \<noteq> None" by (simp add: wf_bog_def)
  have k: "col solris_class row_water1 \<notin> fst ` set wf_marsh"
    by (simp add: col_def row_water1_def wf_marsh_def e1_def)
  from water_defaults_and_rounding [OF c disjI2 [OF m], of "[e1, e2]"]
  have a: "\<forall>r\<in>set [row_water1, row_water2, row_water9].
          (col solris_class r \<notin> fst ` set wf_marsh
             \<longrightarrow> wf_value_per_ha r = 0 \<and> total_wf_value r = 0)
        \<and> total_wf_value r = round_np 4 (area_hectares r * wf_value_per_ha r)"
    unfolding process_df_water_marsh by auto
  from a k have a1: "wf_value_per_ha row_water1 = 0 \<and> total_wf_value row_water1 = 0"
    by simp
  from a have a2: "total_wf_value row_water2 = round_np 4 (3 * (123456789 / 100000))"
    by (simp add: row_water2_def)
  have z: "sum_list (map total_wf_value [row_water1, row_water2_zero, row_water9]) = 0"
    by (simp add: row_water1_def row_water2_zero_def row_water9_def)
  from water_defaults_and_rounding [OF c disjI2 [OF g], of "[e1, e2]"]
  have "\<forall>r\<in>set [row_water1, row_water2_zero, row_water9].
          (sum_list (map total_wf_value [row_water1, row_water2_zero, row_water9]) = 0
             \<longrightarrow> percentage_of_total_w r = Fin 0)"
    unfolding process_df_water_bog by auto
  with z have b: "percentage_of_total_w row_water2_zero = Fin 0" by simp
  show ?thesis
    using c m g k a1 a2 z b process_df_water_marsh process_df_water_bog by simp
qed

text \<open>
  C6 as stated fails: with a wetland-value table whose only row has an empty
  \<open>wetland_type\<close>, the class \<open>Forest\<close> has no entry in the table, and the water calculator
  raises instead of giving its row the value 0.
\<close>

theorem water_raises_on_nameless_wetland_table:
  "set required_cols \<subseteq> set (columns df_water)
   \<and> \<lparr>gridcode = 1, area_hectares = 4, entry = Some e1\<rparr>
        \<in> set (merge_lookup (groupby_sum (cells df_water)) [e1, e2])
   \<and> col solris_class \<lparr>gridcode = 1, area_hectares = 4, entry = Some e1\<rparr> = Some ''Forest''
   \<and> Some ''Forest'' \<notin> fst ` set wf_no_name
   \<and> process_water_filtration df_water [e1, e2] wf_no_name = Inl MergeOnObjectAndFloat"
proof -
  have m: "\<lparr>gridcode = 1, area_hectares = 4, entry = Some e1\<rparr>
        \<in> set (merge_lookup (groupby_sum (cells df_water)) [e1, e2])"
    unfolding merged_df_water by simp
  have k: "col solris_class \<lparr>gridcode = 1, area_hectares = 4, entry = Some e1\<rparr>
      = Some ''Forest''"
    by (simp add: col_def e1_def)
  have n: "Some ''Forest'' \<notin> fst ` set wf_no_name"
    by (simp add: wf_no_name_def)
  show ?thesis
    using required_cols_df_water m k n process_df_water_no_name by blast
qed

theorem water_keeps_unmatched_codes_witness:
  "set required_cols \<subseteq> set (columns df_water)
   \<and> Some 9 \<in> fst ` set (cells df_water)
   \<and> 9 \<notin> solris_code ` set [e1, e2]
   \<and> None \<notin> fst ` set wf_marsh
   \<and> process_water_filtration df_water [e1, e2] wf_marsh =
       Inr ([], [row_water1, row_water2, row_water9])
   \<and> gridcode row_water9 = 9
   \<and> col solris_class row_water9 = None
   \<and> wf_value_per_ha row_water9 = 0 \<and> total_wf_value row_water9 = 0
   \<and> fst (process_biocapacity_data df_water [e1, e2]) = [MissingLookupEntries [9]]"
proof -
  note c = required_cols_df_water
  have i: "Some 9 \<in> fst ` set (cells df_water)"
    by (simp add: df_water_def)
  have n: "9 \<notin> solris_code ` set [e1, e2]"
    by (simp add: e1_def e2_def)
  have b: "None \<notin> fst ` set wf_marsh"
    by (simp add: wf_marsh_def)
  have g: "gridcode row_water9 = 9"
    by (simp add: row_water9_def)
  have mc: "missing_codes (merge_lookup (groupby_sum (cells df_water)) [e1, e2]) = [9]"
    by (simp add: merged_df_water missing_codes_def unique_def col_def)
  note t = water_keeps_unmatched_codes [OF c i n b, unfolded mc]
  from t have "\<forall>r\<in>set [row_water1, row_water2, row_water9]. gridcode r = 9 \<longrightarrow>
                 col solris_class r = None
               \<and> wf_value_per_ha r = 0 \<and> total_wf_value r = 0"
    unfolding process_df_water_marsh by auto
  with g have r: "col solris_class row_water9 = None
      \<and> wf_value_per_ha row_water9 = 0 \<and> total_wf_value row_water9 = 0"
    by simp
  from t have l: "fst (process_biocapacity_data df_water [e1, e2]) = [MissingLookupEntries [9]]"
    by blast
  show ?thesis
    using c i n b g r l process_df_water_marsh by simp
qed

text \<open>
  C9 as stated fails: with a wetland-value table that has, besides the entry for
  \<open>Marsh\<close>, an entry with an empty \<open>wetland_type\<close> and the value 5, the row of code 9,
  which the reference table lacks, gets the per-hectare value 5 and the total 10.
\<close>

theorem blank_wetland_type_matches_missing_class:
  "set required_cols \<subseteq> set (columns df_water)
   \<and> Some 9 \<in> fst ` set (cells df_water)
   \<and> 9 \<notin> solris_code ` set [e1, e2]
   \<and> process_water_filtration df_water [e1, e2] wf_blank =
       Inr ([], [row_water1, row_water2_blank, row_water9_blank])
   \<and> gridcode row_water9_blank = 9
   \<and> col solris_class row_water9_blank = None
   \<and> wf_value_per_ha row_water9_blank \<noteq> 0
   \<and> total_wf_value row_water9_blank \<noteq> 0"
  using required_cols_df_water process_df_water_blank
  by (simp add: df_water_def e1_def e2_def row_water9_blank_def col_def)

lemma missing_df_aesthetic:
  "missing_codes (merge_lookup (groupby_sum (cells df_aesthetic)) [e1, e2]) = [7]"
  by (simp add: groupby_df_aesthetic merge_lookup_def merge_one_def e1_def e2_def
      missing_codes_def unique_def col_def)

theorem missing_reference_policy_witness:
  "set required_cols \<subseteq> set (columns df_aesthetic)
   \<and> Some 7 \<in> fst ` set (cells df_aesthetic)
   \<and> 7 \<notin> solris_code ` set [e1, e2]
   \<and> [e1, e2] \<noteq> []
   \<and> (\<exists>rs. process_biocapacity_data df_aesthetic [e1, e2] =
              ([MissingLookupEntries [7]], Inr rs)
         \<and> (\<exists>r\<in>set rs. gridcode r = 7 \<and> biocapacity_gha r = None
               \<and> percentage_of_total_b r = NaN))
   \<and> (\<exists>rs. process_carbon_sequestration df_aesthetic [e1, e2] =
               Inr ([MissingLookupEntries [7]], rs)
         \<and> (\<exists>r\<in>set rs. gridcode r = 7 \<and> col agc_tc_ha r = None
               \<and> total_carbon_tc r = 0 \<and> percentage_of_total_c r = Fin 0))
   \<and> process_aesthetic_quality df_aesthetic [e1, e2] =
       Inr ([], [row_aesthetic1, row_aesthetic2])
   \<and> 7 \<notin> gridcode_a ` set [row_aesthetic1, row_aesthetic2]"
proof -
  note c = required_cols_df_aesthetic
  have i: "Some 7 \<in> fst ` set (cells df_aesthetic)"
    by (simp add: df_aesthetic_def)
  have n: "7 \<notin> solris_code ` set [e1, e2]"
    by (simp add: e1_def e2_def)
  have l: "[e1, e2] \<noteq> []" by simp
  note t = missing_reference_policy [OF c i n l, unfolded missing_df_aesthetic]
  have b: "\<exists>rs. process_biocapacity_data df_aesthetic [e1, e2] =
                  ([MissingLookupEntries [7]], Inr rs)
         \<and> (\<exists>r\<in>set rs. gridcode r = 7 \<and> biocapacity_gha r = None
               \<and> percentage_of_total_b r = NaN)"
    using t by blast
  have k: "\<exists>rs. process_carbon_sequestration df_aesthetic [e1, e2] =
               Inr ([MissingLookupEntries [7]], rs)
         \<and> (\<exists>r\<in>set rs. gridcode r = 7 \<and> col agc_tc_ha r = None
               \<and> total_carbon_tc r = 0 \<and> percentage_of_total_c r = Fin 0)"
    using t by blast
  have a: "7 \<notin> gridcode_a ` set [row_aesthetic1, row_aesthetic2]"
    using t process_df_aesthetic by blast
  show ?thesis using c i n l b k a process_df_aesthetic by blast
qed

lemma process_df_bio_empty_reference:
  "process_biocapacity_data df_carbon [] = ([MissingLookupEntries [1, 9]], Inl ZeroDivisionError)"
  using check_required_None [of required_cols "columns df_carbon"] required_cols_df_carbon
  by (simp add: process_biocapacity_data_def groupby_df_carbon merge_lookup_def merge_one_def
      missing_warning_def missing_codes_def unique_def col_def)

text \<open>
  C7 as stated fails. The carbon row of code 9, which the reference table lacks, has
  null coefficients but defined computed columns: total carbon 0, social cost 0 and
  percentage 0. And with a reference table that has no row at all the biocapacity
  calculator keeps no row: it logs the warning and raises \<open>ZeroDivisionError\<close>.
\<close>

theorem carbon_columns_defined_without_reference:
  "Some 9 \<in> fst ` set (cells df_carbon)
   \<and> 9 \<notin> solris_code ` set [e1]
   \<and> process_carbon_sequestration df_carbon [e1] =
       Inr ([MissingLookupEntries [9]], [row_carbon, row_carbon_missing])
   \<and> gridcode row_carbon_missing = 9
   \<and> col agc_tc_ha row_carbon_missing = None
   \<and> total_carbon_tc row_carbon_missing = 0
   \<and> ssc row_carbon_missing = 0
   \<and> percentage_of_total_c row_carbon_missing = Fin 0
   \<and> process_biocapacity_data df_carbon [] =
       ([MissingLookupEntries [1, 9]], Inl ZeroDivisionError)"
  using process_df_carbon process_df_bio_empty_reference
  by (simp add: df_carbon_def e1_def row_carbon_missing_def col_def)

section \<open>The discounted cost projection\<close>

lemma scc_by_year_dom: "scc_by_year sched y = None \<longleftrightarrow> y \<notin> fst ` set sched"
  by (simp add: scc_by_year_def map_of_eq_None_iff)

lemma scc_by_year_mem: "scc_by_year sched y = Some p \<Longrightarrow> (y, p) \<in> set sched"
  by (auto simp: scc_by_year_def dest: map_of_SomeD)

lemma last_year_Inl:
  "last_year sched y = Inl e \<longleftrightarrow> e = MaxEmptySequence \<and> (\<forall>k\<in>fst ` set sched. y < k)"
proof (cases "filter (\<lambda>k. k \<le> y) (map fst sched)")
  case Nil
  then have "\<forall>k\<in>fst ` set sched. y < k"
    by (auto simp: filter_empty_conv)
  with Nil show ?thesis by (auto simp: last_year_def)
next
  case (Cons k ks)
  then have "k \<in> set (filter (\<lambda>k. k \<le> y) (map fst sched))" by simp
  then have "k \<in> fst ` set sched" "k \<le> y" by auto
  then have "\<not> (\<forall>k\<in>fst ` set sched. y < k)" by force
  with Cons show ?thesis by (simp add: last_year_def)
qed

lemma last_year_Inr:
  assumes "last_year sched y = Inr k"
  shows "k \<in> fst ` set sched" "k \<le> y" "\<forall>k'\<in>fst ` set sched. k' \<le> y \<longrightarrow> k' \<le> k"
proof -
  let ?ks = "filter (\<lambda>k. k \<le> y) (map fst sched)"
  from assms obtain k0 ks where ks: "?ks = k0 # ks" "k = fold max ks k0"
    by (auto simp: last_year_def split: list.splits)
  then have m: "k = Max (set ?ks)"
    using Max.set_eq_fold [of k0 ks] by simp
  have ne: "set ?ks \<noteq> {}" using ks(1) by auto
  have "k \<in> set ?ks" unfolding m using ne by (intro Max_in) auto
  then show "k \<in> fst ` set sched" "k \<le> y" by auto
  show "\<forall>k'\<in>fst ` set sched. k' \<le> y \<longrightarrow> k' \<le> k"
  proof (intro ballI impI)
    fix k' assume "k' \<in> fst ` set sched" "k' \<le> y"
    then have "k' \<in> set ?ks" by auto
    then show "k' \<le> k" unfolding m by (intro Max_ge) auto
  qed
qed

lemma annual_scc_value_Inl:
  "annual_scc_value sched y = Inl e \<longleftrightarrow> e = MaxEmptySequence \<and> (\<forall>k\<in>fst ` set sched. y < k)"
proof (cases "scc_by_year sched y")
  case None
  show ?thesis
  proof (cases "last_year sched y")
    case (Inl e')
    with None show ?thesis
      using last_year_Inl [of sched y e'] by (auto simp: annual_scc_value_def)
  next
    case (Inr k)
    from last_year_Inr [OF Inr] have k: "k \<in> fst ` set sched" "k \<le> y" by auto
    then obtain p where "scc_by_year sched k = Some p"
      using scc_by_year_dom [of sched k] by auto
    moreover have "\<not> (\<forall>k\<in>fst ` set sched. y < k)"
      using k by force
    ultimately show ?thesis
      using None Inr by (simp add: annual_scc_value_def)
  qed
next
  case (Some p)
  then have "y \<in> fst ` set sched"
    using scc_by_year_dom [of sched y] by auto
  with Some show ?thesis
    by (auto simp: annual_scc_value_def)
qed

lemma annual_scc_value_Inr:
  assumes "annual_scc_value sched y = Inr p"
  shows "if y \<in> fst ` set sched then scc_by_year sched y = Some p
         else (\<exists>k. k \<in> fst ` set sched \<and> k \<le> y
                 \<and> (\<forall>k'\<in>fst ` set sched. k' \<le> y \<longrightarrow> k' \<le> k)
                 \<and> scc_by_year sched k = Some p)"
proof (cases "scc_by_year sched y")
  case None
  then have n: "y \<notin> fst ` set sched" by (simp add: scc_by_year_dom)
  from assms None obtain k where k: "last_year sched y = Inr k" "scc_by_year sched k = Some p"
    by (auto simp: annual_scc_value_def split: sum.splits option.splits)
  from last_year_Inr [OF k(1)] k(2) n show ?thesis by auto
next
  case (Some q)
  then have "y \<in> fst ` set sched"
    using scc_by_year_dom [of sched y] by auto
  with Some assms show ?thesis by (simp add: annual_scc_value_def)
qed

lemma collect_Inl:
  assumes "\<exists>x\<in>set xs. \<exists>e'. f x = Inl e'" and "\<And>x e'. x \<in> set xs \<Longrightarrow> f x = Inl e' \<Longrightarrow> e' = e"
  shows "collect (map f xs) = Inl e"
  using assms
proof (induction xs)
  case Nil
  then show ?case by simp
next
  case (Cons x xs)
  show ?case
  proof (cases "f x")
    case (Inl e')
    then show ?thesis using Cons.prems(2) [of x e'] by simp
  next
    case (Inr y)
    with Cons.prems(1) have "\<exists>x\<in>set xs. \<exists>e'. f x = Inl e'" by auto
    then have "collect (map f xs) = Inl e"
      using Cons.prems(2) by (intro Cons.IH) auto
    with Inr show ?thesis by simp
  qed
qed

lemma collect_all_Inr:
  assumes "\<And>x. x \<in> set xs \<Longrightarrow> \<exists>y. f x = Inr y"
  shows "\<exists>ys. collect (map f xs) = Inr ys"
  using assms
proof (induction xs)
  case Nil
  then show ?case by simp
next
  case (Cons x xs)
  then obtain y ys where "f x = Inr y" "collect (map f xs) = Inr ys"
    by (metis list.set_intros(1) list.set_intros(2))
  then show ?case by simp
qed

lemma discounted_year_Inl:
  "discounted_year sched sf s r y = Inl e \<longleftrightarrow>
     e = MaxEmptySequence \<and> (\<forall>k\<in>fst ` set sched. y < k)"
  using annual_scc_value_Inl [of sched y e]
  by (auto simp: discounted_year_def split: sum.splits)

text \<open>
  C8. When some year of the requested range is absent from the price schedule and no
  schedule year is at or before it, the fallback takes the maximum of an empty list and
  the projection raises (\<open>MaxEmptySequence\<close>) instead of producing a series. The
  fallback, and with it the projection, is defined exactly when every requested year has
  a schedule year at or before it.
\<close>

theorem projection_raises_before_schedule:
  "((\<exists>y\<in>set [start_year..end_year]. y \<notin> fst ` set sched \<and> (\<forall>k\<in>fst ` set sched. \<not> k \<le> y))
      \<longrightarrow> plot_discounted_social_cost t sched start_year end_year rate = Inl MaxEmptySequence)
   \<and> ((\<forall>y\<in>set [start_year..end_year]. \<exists>k\<in>fst ` set sched. k \<le> y)
      \<longrightarrow> (\<exists>series. plot_discounted_social_cost t sched start_year end_year rate = Inr series))
   \<and> (\<forall>y. (\<forall>k\<in>fst ` set sched. \<not> k \<le> y) \<longrightarrow> last_year sched y = Inl MaxEmptySequence)
   \<and> (\<forall>y. (\<exists>k\<in>fst ` set sched. k \<le> y) \<longrightarrow> (\<exists>v. annual_scc_value sched y = Inr v))"
proof -
  let ?f = "discounted_year sched (scaling_factor t) start_year rate"
  have a: "plot_discounted_social_cost t sched start_year end_year rate = Inl MaxEmptySequence"
    if "\<exists>y\<in>set [start_year..end_year]. y \<notin> fst ` set sched \<and> (\<forall>k\<in>fst ` set sched. \<not> k \<le> y)"
  proof -
    from that obtain y where y: "y \<in> set [start_year..end_year]" "\<forall>k\<in>fst ` set sched. y < k"
      by force
    then have "?f y = Inl MaxEmptySequence" by (simp add: discounted_year_Inl)
    with y(1) have "\<exists>x\<in>set [start_year..end_year]. \<exists>e'. ?f x = Inl e'" by blast
    then show ?thesis
      unfolding plot_discounted_social_cost_def
      by (rule collect_Inl) (simp add: discounted_year_Inl)
  qed
  have v: "\<exists>v. annual_scc_value sched y = Inr v" if "\<exists>k\<in>fst ` set sched. k \<le> y" for y
  proof (cases "annual_scc_value sched y")
    case (Inl e)
    then show ?thesis using that annual_scc_value_Inl [of sched y e] by force
  next
    case (Inr v)
    then show ?thesis by blast
  qed
  have b: "\<exists>series. plot_discounted_social_cost t sched start_year end_year rate = Inr series"
    if "\<forall>y\<in>set [start_year..end_year]. \<exists>k\<in>fst ` set sched. k \<le> y"
    unfolding plot_discounted_social_cost_def
  proof (rule collect_all_Inr)
    fix y assume "y \<in> set [start_year..end_year]"
    with that have "\<exists>k\<in>fst ` set sched. k \<le> y" by blast
    then obtain p where "annual_scc_value sched y = Inr p" using v by blast
    then show "\<exists>z. ?f y = Inr z" by (simp add: discounted_year_def)
  qed
  have c: "last_year sched y = Inl MaxEmptySequence" if "\<forall>k\<in>fst ` set sched. \<not> k \<le> y" for y
    using that last_year_Inl [of sched y MaxEmptySequence] by force
  from a b c v show ?thesis by blast
qed


lemma collect_map_Inr_nth:
  assumes "collect (map f xs) = Inr ys"
  shows "length ys = length xs" and "\<forall>i<length xs. f (xs ! i) = Inr (ys ! i)"
proof -
  from assms have m: "map f xs = map Inr ys" by (rule collect_Inr)
  then show l: "length ys = length xs" by (metis length_map)
  show "\<forall>i<length xs. f (xs ! i) = Inr (ys ! i)"
  proof (intro allI impI)
    fix i assume i: "i < length xs"
    then have "map f xs ! i = map Inr ys ! i" using m by simp
    then show "f (xs ! i) = Inr (ys ! i)" using i l by simp
  qed
qed

lemma upto_nth: "i < length [a..b] \<Longrightarrow> [a..b] ! i = a + int i"
  by simp

text \<open>
  C5. The scaling factor is the aggregate social cost in millions over 252. When the
  projection returns, its series has one entry for every year of the inclusive range, in
  year order. The price used for a year is the schedule's price for that year if the
  schedule has the year, and otherwise the price of the latest schedule year at or before
  it (a year of the schedule, never a later one, never a value between two entries); the
  entry is the scaling factor times that price divided by \<open>(1 + rate)\<close> to the power
  \<open>year - start_year\<close>, that is, multiplied by \<open>1 / (1 + rate) ^ (year - start_year)\<close>.
\<close>

theorem projection_series:
  assumes "plot_discounted_social_cost t sched start_year end_year rate = Inr series"
  shows "scaling_factor t = t / 252
     \<and> map fst series = [start_year..end_year]
     \<and> (\<forall>i<length series.
          \<exists>p. (if fst (series ! i) \<in> fst ` set sched
                then scc_by_year sched (fst (series ! i)) = Some p
                     \<and> (fst (series ! i), p) \<in> set sched
                else (\<exists>k. (k, p) \<in> set sched \<and> scc_by_year sched k = Some p
                        \<and> k \<le> fst (series ! i)
                        \<and> (\<forall>k'\<in>fst ` set sched. k' \<le> fst (series ! i) \<longrightarrow> k' \<le> k)))
             \<and> snd (series ! i) =
                 fdiv (Fin (scaling_factor t * p))
                   (Fin ((1 + rate) ^ nat (fst (series ! i) - start_year)))
             \<and> (1 + rate \<noteq> 0 \<longrightarrow>
                  snd (series ! i) =
                    Fin (p * scaling_factor t
                           * (1 / (1 + rate) ^ nat (fst (series ! i) - start_year)))))"
proof -
  let ?f = "discounted_year sched (scaling_factor t) start_year rate"
  let ?ys = "[start_year..end_year]"
  have c: "collect (map ?f ?ys) = Inr series"
    using assms by (simp add: plot_discounted_social_cost_def)
  note n = collect_map_Inr_nth [OF c]
  have one: "fst z = y \<and> (\<exists>p. annual_scc_value sched y = Inr p
       \<and> snd z = discounted_value (scaling_factor t) p start_year rate y)"
    if "?f y = Inr z" for y z
    using that by (auto simp: discounted_year_def split: sum.splits)
  have f: "map fst series = ?ys"
  proof (rule nth_equalityI)
    show "length (map fst series) = length ?ys" using n(1) by simp
    fix i assume "i < length (map fst series)"
    then have i: "i < length ?ys" using n(1) by simp
    then have "?f (?ys ! i) = Inr (series ! i)" using n(2) by blast
    from one [OF this] show "map fst series ! i = ?ys ! i"
      using i n(1) by simp
  qed
  have each: "\<exists>p. (if fst (series ! i) \<in> fst ` set sched
                then scc_by_year sched (fst (series ! i)) = Some p
                     \<and> (fst (series ! i), p) \<in> set sched
                else (\<exists>k. (k, p) \<in> set sched \<and> scc_by_year sched k = Some p
                        \<and> k \<le> fst (series ! i)
                        \<and> (\<forall>k'\<in>fst ` set sched. k' \<le> fst (series ! i) \<longrightarrow> k' \<le> k)))
             \<and> snd (series ! i) =
                 fdiv (Fin (scaling_factor t * p))
                   (Fin ((1 + rate) ^ nat (fst (series ! i) - start_year)))
             \<and> (1 + rate \<noteq> 0 \<longrightarrow>
                  snd (series ! i) =
                    Fin (p * scaling_factor t
                           * (1 / (1 + rate) ^ nat (fst (series ! i) - start_year))))"
    if "i < length series" for i
  proof -
    let ?y = "fst (series ! i)"
    from that have i: "i < length ?ys" using n(1) by simp
    then have "?f (?ys ! i) = Inr (series ! i)" using n(2) by blast
    from one [OF this] obtain p where
      y: "?y = ?ys ! i" and p: "annual_scc_value sched ?y = Inr p"
      and v: "snd (series ! i) = discounted_value (scaling_factor t) p start_year rate ?y"
      by auto
    have a: "if ?y \<in> fst ` set sched
                then scc_by_year sched ?y = Some p \<and> (?y, p) \<in> set sched
                else (\<exists>k. (k, p) \<in> set sched \<and> scc_by_year sched k = Some p
                        \<and> k \<le> ?y
                        \<and> (\<forall>k'\<in>fst ` set sched. k' \<le> ?y \<longrightarrow> k' \<le> k))"
    proof (cases "?y \<in> fst ` set sched")
      case True
      then have "scc_by_year sched ?y = Some p"
        using annual_scc_value_Inr [OF p] by simp
      then show ?thesis using True scc_by_year_mem by simp
    next
      case False
      then obtain k where k: "k \<in> fst ` set sched" "k \<le> ?y"
        "\<forall>k'\<in>fst ` set sched. k' \<le> ?y \<longrightarrow> k' \<le> k" "scc_by_year sched k = Some p"
        using annual_scc_value_Inr [OF p] by auto
      from k(4) have "(k, p) \<in> set sched" by (rule scc_by_year_mem)
      with k False show ?thesis by auto
    qed
    have b: "snd (series ! i) =
                 fdiv (Fin (scaling_factor t * p)) (Fin ((1 + rate) ^ nat (?y - start_year)))"
      using v by (simp add: discounted_value_def)
    have d: "1 + rate \<noteq> 0 \<longrightarrow>
                  snd (series ! i) =
                    Fin (p * scaling_factor t * (1 / (1 + rate) ^ nat (?y - start_year)))"
      using b by (simp add: mult.commute)
    from a b d show ?thesis by blast
  qed
  show ?thesis using f each by (simp add: scaling_factor_def)
qed


lemma plot_schedule_2021_2022:
  "plot_discounted_social_cost 504 schedule 2021 2022 (1 / 10) =
     Inr [(2021, Fin 504), (2022, Fin (5040 / 11))]"
  by (simp add: plot_discounted_social_cost_def discounted_year_def annual_scc_value_def
      scc_by_year_def last_year_def schedule_def scaling_factor_def discounted_value_def)

theorem projection_series_witness:
  "plot_discounted_social_cost 504 schedule 2021 2022 (1 / 10) =
     Inr [(2021, Fin 504), (2022, Fin (5040 / 11))]
   \<and> scaling_factor 504 = 2
   \<and> 2021 \<in> fst ` set schedule \<and> (2021, 252) \<in> set schedule
   \<and> 2022 \<notin> fst ` set schedule
   \<and> map fst [(2021, Fin 504), (2022, Fin (5040 / 11))] = [2021..2022]
   \<and> (\<exists>p k. (k, p) \<in> set schedule \<and> k \<le> 2022
         \<and> Fin (5040 / 11) = Fin (p * scaling_factor 504 * (1 / (1 + 1 / 10) ^ nat (2022 - 2021))))"
proof -
  note t = projection_series [OF plot_schedule_2021_2022]
  have s: "scaling_factor 504 = 2" using t by simp
  have m: "map fst [(2021, Fin 504), (2022, Fin (5040 / 11 :: real))] = [2021..2022]"
    using t by blast
  have k: "2021 \<in> fst ` set schedule" "(2021, 252) \<in> set schedule"
    "2022 \<notin> fst ` set schedule"
    by (simp_all add: schedule_def)
  from t have "\<forall>i<length [(2021::int, Fin 504), (2022, Fin (5040 / 11))].
          \<exists>p. (if fst ([(2021::int, Fin 504), (2022, Fin (5040 / 11))] ! i) \<in> fst ` set schedule
                then scc_by_year schedule (fst ([(2021::int, Fin 504), (2022, Fin (5040 / 11))] ! i)) = Some p
                     \<and> (fst ([(2021::int, Fin 504), (2022, Fin (5040 / 11))] ! i), p) \<in> set schedule
                else (\<exists>k. (k, p) \<in> set schedule \<and> scc_by_year schedule k = Some p
                        \<and> k \<le> fst ([(2021::int, Fin 504), (2022, Fin (5040 / 11))] ! i)
                        \<and> (\<forall>k'\<in>fst ` set schedule. k' \<le> fst ([(2021::int, Fin 504), (2022, Fin (5040 / 11))] ! i) \<longrightarrow> k' \<le> k)))
             \<and> snd ([(2021::int, Fin 504), (2022, Fin (5040 / 11))] ! i) =
                 fdiv (Fin (scaling_factor 504 * p))
                   (Fin ((1 + 1 / 10) ^ nat (fst ([(2021::int, Fin 504), (2022, Fin (5040 / 11))] ! i) - 2021)))
             \<and> (1 + 1 / 10 \<noteq> (0::real) \<longrightarrow>
                  snd ([(2021::int, Fin 504), (2022, Fin (5040 / 11))] ! i) =
                    Fin (p * scaling_factor 504
                           * (1 / (1 + 1 / 10) ^ nat (fst ([(2021::int, Fin 504), (2022, Fin (5040 / 11))] ! i) - 2021))))"
    by blast
  from this [rule_format, of 1] k(3)
  have e: "\<exists>p k. (k, p) \<in> set schedule \<and> k \<le> 2022
         \<and> Fin (5040 / 11) = Fin (p * scaling_factor 504 * (1 / (1 + 1 / 10) ^ nat (2022 - 2021)))"
    by auto
  show ?thesis using plot_schedule_2021_2022 s m k e by blast
qed

lemma plot_schedule_2019_2021:
  "plot_discounted_social_cost 504 schedule 2019 2021 (1 / 10) = Inl MaxEmptySequence"
  by (simp add: plot_discounted_social_cost_def discounted_year_def annual_scc_value_def
      scc_by_year_def last_year_def schedule_def scaling_factor_def discounted_value_def)

theorem projection_raises_before_schedule_witness:
  "(\<exists>y\<in>set [2019..2021]. y \<notin> fst ` set schedule \<and> (\<forall>k\<in>fst ` set schedule. \<not> k \<le> y))
   \<and> plot_discounted_social_cost 504 schedule 2019 2021 (1 / 10) = Inl MaxEmptySequence
   \<and> last_year schedule 2019 = Inl MaxEmptySequence
   \<and> (\<exists>k\<in>fst ` set schedule. k \<le> 2022)
   \<and> (\<exists>v. annual_scc_value schedule 2022 = Inr v)
   \<and> (\<exists>series. plot_discounted_social_cost 504 schedule 2021 2022 (1 / 10) = Inr series)"
proof -
  have a: "\<exists>y\<in>set [2019..2021]. y \<notin> fst ` set schedule \<and> (\<forall>k\<in>fst ` set schedule. \<not> k \<le> y)"
    by (rule bexI [of _ 2019]) (simp_all add: schedule_def)
  have n: "\<forall>k\<in>fst ` set schedule. \<not> k \<le> 2019"
    by (simp add: schedule_def)
  have b: "\<forall>y\<in>set [2021..2022]. \<exists>k\<in>fst ` set schedule. k \<le> y"
    by (simp add: schedule_def)
  have c: "\<exists>k\<in>fst ` set schedule. k \<le> 2022"
    by (simp add: schedule_def)
  note t1 = projection_raises_before_schedule [of 2019 2021 schedule 504 "1 / 10"]
  note t2 = projection_raises_before_schedule [of 2021 2022 schedule 504 "1 / 10"]
  have r1: "plot_discounted_social_cost 504 schedule 2019 2021 (1 / 10) = Inl MaxEmptySequence"
    using t1 a by blast
  have r2: "last_year schedule 2019 = Inl MaxEmptySequence"
    using t1 n by blast
  have r3: "\<exists>v. annual_scc_value schedule 2022 = Inr v"
    using t1 c by blast
  have r4: "\<exists>series. plot_discounted_social_cost 504 schedule 2021 2022 (1 / 10) = Inr series"
    using t2 b by blast
  show ?thesis using a r1 r2 c r3 r4 by blast
qed


section \<open>Reloading the reference table\<close>

lemma delete_blocked:
  assumes "solris_lookup s = Some lookup" and "still_referenced s lookup"
  shows "delete_solris_lookup s = Inl ForeignKeyViolation"
  using assms by (simp add: delete_solris_lookup_def)

lemma execute_aborted:
  assumes "aborted c"
  shows "execute stmt c = (Some InFailedSqlTransaction, c)"
  using assms by (simp add: execute_def)

lemma truncate_ignoring_aborted:
  assumes "aborted c"
  shows "fold truncate_ignoring ts c = c"
  using assms by (induction ts) (simp_all add: truncate_ignoring_def execute_aborted)

lemma commit_after_failure:
  "commit ((connect s)\<lparr>aborted := True\<rparr>) = connect s"
  by (simp add: commit_def connect_def)

lemma clear_blocked:
  assumes "solris_lookup s = Some lookup" and "still_referenced s lookup"
  shows "clear_solris_lookup s = (Some ForeignKeyViolation, s)"
proof -
  have d: "delete_solris_lookup s = Inl ForeignKeyViolation"
    using assms by (rule delete_blocked)
  have e: "execute delete_solris_lookup (connect s) =
      (Some ForeignKeyViolation, (connect s)\<lparr>aborted := True\<rparr>)"
    by (simp add: execute_def connect_def d)
  have t: "fold truncate_ignoring tables_to_clear ((connect s)\<lparr>aborted := True\<rparr>) =
      (connect s)\<lparr>aborted := True\<rparr>"
    by (rule truncate_ignoring_aborted) simp
  have k: "close_connection ((connect s)\<lparr>aborted := True\<rparr>) = s"
    by (simp add: close_connection_def connect_def)
  show ?thesis
    by (simp add: clear_solris_lookup_def e t commit_after_failure k)
qed

lemma clear_not_blocked:
  assumes "delete_solris_lookup s = Inr s1"
  shows "clear_solris_lookup s = (None, s1)"
  using assms
  by (simp add: clear_solris_lookup_def execute_def connect_def commit_def close_connection_def)

lemma clear_other_failure:
  assumes "delete_solris_lookup s = Inl e" and "\<not> is_foreign_key_error e"
  shows "clear_solris_lookup s = (Some e, s)"
  using assms
  by (simp add: clear_solris_lookup_def execute_def connect_def close_connection_def)

text \<open>
  C1 fails on the code. When rows of a result table still reference the reference table,
  the first \<open>DELETE\<close> raises the foreign-key error and aborts the transaction of the
  connection. Each of the four \<open>TRUNCATE\<close>s then fails in the aborted transaction and its
  error is dropped, \<open>commit\<close> ends the transaction by rolling it back, and the retried
  \<open>DELETE\<close> raises the same foreign-key error: the loader raises, inserts nothing and
  leaves the reference table and the result tables as they were.
\<close>

theorem reload_fails_on_foreign_key_violation:
  assumes "missing_columns (csv_columns csv) = []"
    and "solris_lookup s = Some lookup"
    and "still_referenced s lookup"
  shows "load_solris_lookup_table to_sql csv custom_factors s = (Inl ForeignKeyViolation, s)
     \<and> (\<forall>t\<in>set tables_to_clear.
          execute (truncate_table t) (snd (execute delete_solris_lookup (connect s))) =
            (Some InFailedSqlTransaction, snd (execute delete_solris_lookup (connect s))))"
proof -
  have c: "clear_solris_lookup s = (Some ForeignKeyViolation, s)"
    using assms(2,3) by (rule clear_blocked)
  have l: "load_solris_lookup_table to_sql csv custom_factors s = (Inl ForeignKeyViolation, s)"
    using assms(1) by (simp add: load_solris_lookup_table_def c Let_def)
  have d: "delete_solris_lookup s = Inl ForeignKeyViolation"
    using assms(2,3) by (rule delete_blocked)
  have a: "aborted (snd (execute delete_solris_lookup (connect s)))"
    by (simp add: execute_def connect_def d)
  from l a show ?thesis by (simp add: execute_aborted)
qed

lemma csv_lookup_columns: "missing_columns (csv_columns csv_lookup) = []"
  by (simp add: missing_columns_def csv_lookup_def)

lemma store1_referenced: "still_referenced store1 [e1, e2]"
  by (simp add: still_referenced_def store1_def tables_to_clear_def referencing_def e1_def)

theorem reload_fails_on_foreign_key_violation_witness:
  "missing_columns (csv_columns csv_lookup) = []
   \<and> solris_lookup store1 = Some [e1, e2]
   \<and> still_referenced store1 [e1, e2]
   \<and> load_solris_lookup_table (\<lambda>cols df s. Inr (s\<lparr>solris_lookup := Some df\<rparr>))
       csv_lookup factors1 store1 = (Inl ForeignKeyViolation, store1)
   \<and> biocapacity_results store1 = Some \<lparr>foreign_key = True, codes = [Some 1, None]\<rparr>"
proof -
  note c = csv_lookup_columns
  have l: "solris_lookup store1 = Some [e1, e2]" by (simp add: store1_def)
  note r = store1_referenced
  have b: "biocapacity_results store1 = Some \<lparr>foreign_key = True, codes = [Some 1, None]\<rparr>"
    by (simp add: store1_def)
  from reload_fails_on_foreign_key_violation [OF c l r]
  have "load_solris_lookup_table (\<lambda>cols df s. Inr (s\<lparr>solris_lookup := Some df\<rparr>))
       csv_lookup factors1 store1 = (Inl ForeignKeyViolation, store1)"
    by blast
  with c l r b show ?thesis by blast
qed

section \<open>The override map of the loader\<close>

lemma apply_custom_factor_length [simp]: "length (apply_custom_factor cf rs) = length rs"
  by (simp add: apply_custom_factor_def split: option.splits)

lemma apply_custom_factor_nth:
  assumes "i < length rs"
  shows "(apply_custom_factor cf rs ! i)
           \<lparr>biocapacity_conversion_factor_v := biocapacity_conversion_factor_v (rs ! i)\<rparr> = rs ! i"
  using assms by (simp add: apply_custom_factor_def split: option.splits)

lemma apply_custom_factor_codes [simp]:
  "map solris_code_v (apply_custom_factor cf rs) = map solris_code_v rs"
  by (simp add: apply_custom_factor_def split: option.splits)

lemma apply_custom_factors_length [simp]: "length (apply_custom_factors cfs rs) = length rs"
  unfolding apply_custom_factors_def by (induction cfs arbitrary: rs) simp_all

lemma apply_custom_factors_codes [simp]:
  "map solris_code_v (apply_custom_factors cfs rs) = map solris_code_v rs"
  unfolding apply_custom_factors_def by (induction cfs arbitrary: rs) simp_all

lemma apply_custom_factors_nth:
  assumes "i < length rs"
  shows "(apply_custom_factors cfs rs ! i)
           \<lparr>biocapacity_conversion_factor_v := biocapacity_conversion_factor_v (rs ! i)\<rparr> = rs ! i"
  using assms
proof (induction cfs arbitrary: rs)
  case Nil
  then show ?case by (simp add: apply_custom_factors_def)
next
  case (Cons cf cfs)
  let ?rs = "apply_custom_factor cf rs"
  have i: "i < length ?rs" using Cons.prems by simp
  have "(apply_custom_factors cfs ?rs ! i)
           \<lparr>biocapacity_conversion_factor_v := biocapacity_conversion_factor_v (?rs ! i)\<rparr> = ?rs ! i"
    using i by (rule Cons.IH)
  then have "(apply_custom_factors cfs ?rs ! i)
           \<lparr>biocapacity_conversion_factor_v := biocapacity_conversion_factor_v (rs ! i)\<rparr>
         = (?rs ! i)\<lparr>biocapacity_conversion_factor_v := biocapacity_conversion_factor_v (rs ! i)\<rparr>"
    by (metis csv_row.update_convs(4) csv_row.surjective)
  then show ?case
    using apply_custom_factor_nth [OF Cons.prems, of cf]
    by (simp add: apply_custom_factors_def)
qed

lemma apply_custom_factor_same_factor:
  assumes "g ''biocapacity_conversion_factor'' = snd cf ''biocapacity_conversion_factor''"
  shows "apply_custom_factor (fst cf, g) rs = apply_custom_factor cf rs"
  using assms by (simp add: apply_custom_factor_def split: option.splits)

lemma apply_only_factor: "apply_custom_factor (only_factor cf) = apply_custom_factor cf"
  by (rule ext) (simp add: only_factor_def apply_custom_factor_def split: option.splits)

lemma apply_custom_factor_absent_code:
  assumes "Some (fst cf) \<notin> solris_code_v ` set rs"
  shows "apply_custom_factor cf rs = rs"
proof -
  have "map (\<lambda>r. if solris_code_v r = Some (fst cf)
                    then r\<lparr>biocapacity_conversion_factor_v := v\<rparr> else r) rs = rs" for v
    using assms by (induction rs) auto
  then show ?thesis by (simp add: apply_custom_factor_def split: option.splits)
qed

lemma apply_custom_factors_append:
  "apply_custom_factors (xs @ ys) rs = apply_custom_factors ys (apply_custom_factors xs rs)"
  by (simp add: apply_custom_factors_def)

text \<open>
  C10. Applying the override map keeps the number and order of the rows and changes no
  field of any row other than \<open>biocapacity_conversion_factor\<close>. Every field key of an
  entry other than \<open>biocapacity_conversion_factor\<close> is ignored: removing those keys, or
  an entry that has no \<open>biocapacity_conversion_factor\<close> key, leaves the result the same.
  An entry keyed by a code that no source row has changes nothing.
\<close>

theorem custom_factors_patch_only_conversion_factor:
  "length (apply_custom_factors cfs rs) = length rs
   \<and> (\<forall>i<length rs.
        (apply_custom_factors cfs rs ! i)
          \<lparr>biocapacity_conversion_factor_v := biocapacity_conversion_factor_v (rs ! i)\<rparr> = rs ! i)
   \<and> apply_custom_factors (map only_factor cfs) rs = apply_custom_factors cfs rs
   \<and> (\<forall>cf. snd cf ''biocapacity_conversion_factor'' = None \<longrightarrow>
         apply_custom_factors (cfs @ cf # cfs') rs = apply_custom_factors (cfs @ cfs') rs)
   \<and> (\<forall>cf. Some (fst cf) \<notin> solris_code_v ` set rs \<longrightarrow>
         apply_custom_factors (cfs @ cf # cfs') rs = apply_custom_factors (cfs @ cfs') rs)"
proof -
  have a: "apply_custom_factors (map only_factor cfs) rs = apply_custom_factors cfs rs"
    by (simp add: apply_custom_factors_def fold_map comp_def apply_only_factor)
  have b: "apply_custom_factors (cfs @ cf # cfs') rs = apply_custom_factors (cfs @ cfs') rs"
    if "snd cf ''biocapacity_conversion_factor'' = None" for cf
    using that by (simp add: apply_custom_factors_def apply_custom_factor_def)
  have c: "apply_custom_factors (cfs @ cf # cfs') rs = apply_custom_factors (cfs @ cfs') rs"
    if "Some (fst cf) \<notin> solris_code_v ` set rs" for cf
  proof -
    have "set (map solris_code_v (apply_custom_factors cfs rs)) = set (map solris_code_v rs)"
      by simp
    then have "Some (fst cf) \<notin> solris_code_v ` set (apply_custom_factors cfs rs)"
      using that by (simp del: apply_custom_factors_codes)
    then have "apply_custom_factor cf (apply_custom_factors cfs rs) = apply_custom_factors cfs rs"
      by (rule apply_custom_factor_absent_code)
    then show ?thesis by (simp add: apply_custom_factors_def)
  qed
  show ?thesis
    using a b c apply_custom_factors_nth [of _ rs cfs] by simp
qed

lemma apply_factors1:
  "apply_custom_factors factors1 [csv_row1, csv_row2] =
     [csv_row1\<lparr>biocapacity_conversion_factor_v := Some (6 / 10)\<rparr>, csv_row2]"
  by (simp add: apply_custom_factors_def apply_custom_factor_def factors1_def csv_row1_def
      csv_row2_def)

theorem custom_factors_patch_only_conversion_factor_witness:
  "apply_custom_factors factors1 [csv_row1, csv_row2] =
     [csv_row1\<lparr>biocapacity_conversion_factor_v := Some (6 / 10)\<rparr>, csv_row2]
   \<and> apply_custom_factors (map only_factor factors1) [csv_row1, csv_row2] =
       [csv_row1\<lparr>biocapacity_conversion_factor_v := Some (6 / 10)\<rparr>, csv_row2]
   \<and> Some 33 \<notin> solris_code_v ` set [csv_row1, csv_row2]
   \<and> apply_custom_factors
        [(1, [''biocapacity_conversion_factor'' \<mapsto> Some (6 / 10), ''naturalness'' \<mapsto> Some 9]),
         (2, [''naturalness'' \<mapsto> Some 7])]
        [csv_row1, csv_row2] =
       [csv_row1\<lparr>biocapacity_conversion_factor_v := Some (6 / 10)\<rparr>, csv_row2]
   \<and> apply_custom_factors
        [(1, [''biocapacity_conversion_factor'' \<mapsto> Some (6 / 10), ''naturalness'' \<mapsto> Some 9])]
        [csv_row1, csv_row2] =
       [csv_row1\<lparr>biocapacity_conversion_factor_v := Some (6 / 10)\<rparr>, csv_row2]
   \<and> naturalness_v (apply_custom_factors factors1 [csv_row1, csv_row2] ! 0) = Some 5"
proof -
  note t = custom_factors_patch_only_conversion_factor
  have a: "apply_custom_factors (map only_factor factors1) [csv_row1, csv_row2] =
       [csv_row1\<lparr>biocapacity_conversion_factor_v := Some (6 / 10)\<rparr>, csv_row2]"
    using t [of factors1 "[csv_row1, csv_row2]"] apply_factors1 by simp
  have n: "Some 33 \<notin> solris_code_v ` set [csv_row1, csv_row2]"
    by (simp add: csv_row1_def csv_row2_def)
  have f: "factors1 =
      [(1, [''biocapacity_conversion_factor'' \<mapsto> Some (6 / 10), ''naturalness'' \<mapsto> Some 9]),
       (2, [''naturalness'' \<mapsto> Some 7])]
      @ (33, [''biocapacity_conversion_factor'' \<mapsto> Some (3 / 4)]) # []"
    by (simp add: factors1_def)
  have b: "apply_custom_factors
        [(1, [''biocapacity_conversion_factor'' \<mapsto> Some (6 / 10), ''naturalness'' \<mapsto> Some 9]),
         (2, [''naturalness'' \<mapsto> Some 7])]
        [csv_row1, csv_row2] =
       [csv_row1\<lparr>biocapacity_conversion_factor_v := Some (6 / 10)\<rparr>, csv_row2]"
    using t [of "[(1, [''biocapacity_conversion_factor'' \<mapsto> Some (6 / 10), ''naturalness'' \<mapsto> Some 9]),
         (2, [''naturalness'' \<mapsto> Some 7])]" "[csv_row1, csv_row2]" "[]"] n apply_factors1
    unfolding f by auto
  have g: "[(1::int, [''biocapacity_conversion_factor'' \<mapsto> Some (6 / 10 :: real), ''naturalness'' \<mapsto> Some 9]),
         (2, [''naturalness'' \<mapsto> Some 7])] =
        [(1, [''biocapacity_conversion_factor'' \<mapsto> Some (6 / 10), ''naturalness'' \<mapsto> Some 9])]
        @ (2, [''naturalness'' \<mapsto> Some 7]) # []"
    by simp
  have k: "snd (2::int, [''naturalness'' \<mapsto> Some (7::real)]) ''biocapacity_conversion_factor'' = None"
    by simp
  have c: "apply_custom_factors
        [(1, [''biocapacity_conversion_factor'' \<mapsto> Some (6 / 10), ''naturalness'' \<mapsto> Some 9])]
        [csv_row1, csv_row2] =
       [csv_row1\<lparr>biocapacity_conversion_factor_v := Some (6 / 10)\<rparr>, csv_row2]"
    using t [of "[(1, [''biocapacity_conversion_factor'' \<mapsto> Some (6 / 10), ''naturalness'' \<mapsto> Some 9])]"
        "[csv_row1, csv_row2]" "[]"] k b
    unfolding g by auto
  have d: "naturalness_v (apply_custom_factors factors1 [csv_row1, csv_row2] ! 0) = Some 5"
    unfolding apply_factors1 by (simp add: csv_row1_def)
  show ?thesis using apply_factors1 a n b c d by blast
qed


end

